theory Spec2Isabelle
  imports Complex_Main "HOL-Library.Word"
begin

section \<open>Double-precision values\<close>

text \<open>
  A C++ \<open>double\<close> is modelled as a real number or one of the three special values of
  IEEE 754.  Finite results are exact: rounding, overflow and underflow are not modelled, and
  zero carries no sign (a nonzero value divided by zero is the infinity with the sign of the
  numerator).  The special values follow IEEE 754: \<open>0 / 0\<close>, \<open>inf - inf\<close>, \<open>0 * inf\<close> and
  \<open>inf / inf\<close> are NaN, NaN propagates through every operation, \<open>log 0\<close> is \<open>-inf\<close>, and
  every ordered comparison with NaN is false.
\<close>

datatype dbl = Fin real | PInf | MInf | NaN

fun dneg :: "dbl \<Rightarrow> dbl" where
  "dneg (Fin a) = Fin (- a)"
| "dneg PInf = MInf"
| "dneg MInf = PInf"
| "dneg NaN = NaN"

fun dadd :: "dbl \<Rightarrow> dbl \<Rightarrow> dbl" where
  "dadd (Fin a) (Fin b) = Fin (a + b)"
| "dadd NaN _ = NaN"
| "dadd _ NaN = NaN"
| "dadd PInf MInf = NaN"
| "dadd MInf PInf = NaN"
| "dadd PInf _ = PInf"
| "dadd _ PInf = PInf"
| "dadd MInf _ = MInf"
| "dadd _ MInf = MInf"

definition dsub :: "dbl \<Rightarrow> dbl \<Rightarrow> dbl" where
  "dsub x y = dadd x (dneg y)"

text \<open>The infinity with the sign of a nonzero real.\<close>

definition inf_of :: "real \<Rightarrow> dbl" where
  "inf_of a = (if 0 < a then PInf else MInf)"

fun dmul :: "dbl \<Rightarrow> dbl \<Rightarrow> dbl" where
  "dmul (Fin a) (Fin b) = Fin (a * b)"
| "dmul NaN _ = NaN"
| "dmul _ NaN = NaN"
| "dmul (Fin a) PInf = (if a = 0 then NaN else inf_of a)"
| "dmul (Fin a) MInf = (if a = 0 then NaN else inf_of (- a))"
| "dmul PInf (Fin b) = (if b = 0 then NaN else inf_of b)"
| "dmul MInf (Fin b) = (if b = 0 then NaN else inf_of (- b))"
| "dmul PInf PInf = PInf"
| "dmul PInf MInf = MInf"
| "dmul MInf PInf = MInf"
| "dmul MInf MInf = PInf"

fun ddiv :: "dbl \<Rightarrow> dbl \<Rightarrow> dbl" where
  "ddiv (Fin a) (Fin b) = (if b = 0 then (if a = 0 then NaN else inf_of a) else Fin (a / b))"
| "ddiv NaN _ = NaN"
| "ddiv _ NaN = NaN"
| "ddiv (Fin a) PInf = Fin 0"
| "ddiv (Fin a) MInf = Fin 0"
| "ddiv PInf (Fin b) = (if 0 \<le> b then PInf else MInf)"
| "ddiv MInf (Fin b) = (if 0 \<le> b then MInf else PInf)"
| "ddiv PInf PInf = NaN"
| "ddiv PInf MInf = NaN"
| "ddiv MInf PInf = NaN"
| "ddiv MInf MInf = NaN"

fun dabs :: "dbl \<Rightarrow> dbl" where
  "dabs (Fin a) = Fin \<bar>a\<bar>"
| "dabs PInf = PInf"
| "dabs MInf = PInf"
| "dabs NaN = NaN"

fun dlog :: "dbl \<Rightarrow> dbl" where
  "dlog (Fin a) = (if a = 0 then MInf else if a < 0 then NaN else Fin (ln a))"
| "dlog PInf = PInf"
| "dlog MInf = NaN"
| "dlog NaN = NaN"

text \<open>\<open>x > y\<close> on doubles.\<close>

fun dgt :: "dbl \<Rightarrow> dbl \<Rightarrow> bool" where
  "dgt (Fin a) (Fin b) = (b < a)"
| "dgt NaN _ = False"
| "dgt _ NaN = False"
| "dgt PInf PInf = False"
| "dgt PInf _ = True"
| "dgt MInf _ = False"
| "dgt (Fin a) MInf = True"
| "dgt (Fin a) PInf = False"

text \<open>\<open>x != 0.0\<close> on doubles: true of NaN and of the infinities.\<close>

definition dne0 :: "dbl \<Rightarrow> bool" where
  "dne0 x = (x \<noteq> Fin 0)"

text \<open>The real number that a finite double stands for.\<close>

fun real_of :: "dbl \<Rightarrow> real" where
  "real_of (Fin a) = a"
| "real_of _ = 0"

definition DBL_MAX :: real where
  "DBL_MAX = (2 - 1 / 2 ^ 52) * 2 ^ 1023"

section \<open>Vectors and matrices\<close>

text \<open>
  An \<open>arma::vec\<close> is the list of its elements.  An \<open>arma::mat\<close> is stored column by column,
  as in Armadillo: its row count and the list of its columns.  The operations below are written
  for conforming shapes, which Armadillo requires of its operands.
\<close>

type_synonym vec = "dbl list"

record mat =
  n_rows :: nat
  cols :: "vec list"

definition n_cols :: "mat \<Rightarrow> nat" where
  "n_cols M = length (cols M)"

text \<open>\<open>accu\<close>: the sum of all elements, accumulated from the left starting at zero.\<close>

definition accu :: "vec \<Rightarrow> dbl" where
  "accu v = foldl dadd (Fin 0) v"

text \<open>Row \<open>j\<close> of a matrix given by its columns.\<close>

definition row :: "vec list \<Rightarrow> nat \<Rightarrow> vec" where
  "row cs j = map (\<lambda>c. c ! j) cs"

text \<open>\<open>M * v\<close> for a matrix \<open>M\<close> and a column vector \<open>v\<close>.\<close>

definition mat_vec :: "mat \<Rightarrow> vec \<Rightarrow> vec" where
  "mat_vec M v =
     map (\<lambda>r. accu (map (\<lambda>j. dmul (cols M ! j ! r) (v ! j)) [0..<n_cols M])) [0..<n_rows M]"

text \<open>\<open>M - m * ones<rowvec>(n_cols)\<close>: \<open>m\<close> subtracted from every column.\<close>

definition centred :: "mat \<Rightarrow> vec \<Rightarrow> vec list" where
  "centred M m = map (\<lambda>x. map2 dsub x m) (cols M)"

text \<open>\<open>T % (ones<vec>(n_rows) * trans(c))\<close>: column \<open>j\<close> of \<open>T\<close> scaled by \<open>c[j]\<close>.\<close>

definition col_scaled :: "vec list \<Rightarrow> vec \<Rightarrow> vec list" where
  "col_scaled T c = map2 (\<lambda>x cj. map (\<lambda>e. dmul e cj) x) T c"

text \<open>\<open>A * trans(B)\<close> for two matrices of \<open>d\<close> rows with the same number of columns.\<close>

definition mul_trans :: "nat \<Rightarrow> vec list \<Rightarrow> vec list \<Rightarrow> mat" where
  "mul_trans d A B =
     \<lparr>n_rows = d,
      cols = map (\<lambda>s. map (\<lambda>r. accu (map2 (\<lambda>a b. dmul (a ! r) (b ! s)) A B)) [0..<d]) [0..<d]\<rparr>"

definition vec_div :: "vec \<Rightarrow> dbl \<Rightarrow> vec" where
  "vec_div v s = map (\<lambda>e. ddiv e s) v"

definition mat_div :: "mat \<Rightarrow> dbl \<Rightarrow> mat" where
  "mat_div M s = M\<lparr>cols := map (\<lambda>c. vec_div c s) (cols M)\<rparr>"

section \<open>The mixture model and the fitter\<close>

text \<open>
  A \<open>GaussianDistribution\<close>: its mean and its covariance.  The class belongs to another
  file; its setter \<open>Covariance(std::move(cov))\<close> is taken to store the matrix.
\<close>

record gaussian =
  Mean :: vec
  Covariance :: mat

text \<open>
  An \<open>EMFit<InitialClusteringType, CovarianceConstraintPolicy>\<close> object: its four members,
  the two type tests made by the code (\<open>std::is_same\<close> on the policy and on the clusterer), and
  whether the build defines \<open>_WIN32\<close>.  The clusterer stands for
  \<open>clusterer.Cluster(observations, k, assignments)\<close> and returns the assignments; the constraint
  stands for \<open>constraint.ApplyConstraint(covariance)\<close> and returns the constrained matrix.
\<close>

record emfit =
  maxIterations :: "64 word"
  tolerance :: dbl
  clusterer :: "mat \<Rightarrow> nat \<Rightarrow> nat list"
  constraint :: "mat \<Rightarrow> mat"
  policy_is_DiagonalConstraint :: bool
  clusterer_is_KMeans :: bool
  WIN32 :: bool

text \<open>
  The density of a component at a point belongs to \<open>GaussianDistribution\<close> and is a parameter
  \<open>P\<close> of the model: \<open>dists[i].Probability(observations, v)\<close> stores \<open>P (dists[i]) x\<close> in \<open>v\<close>
  for every column \<open>x\<close> of the observations.
\<close>

type_synonym density = "gaussian \<Rightarrow> vec \<Rightarrow> dbl"

definition Probability :: "density \<Rightarrow> gaussian \<Rightarrow> mat \<Rightarrow> vec" where
  "Probability P d observations = map (P d) (cols observations)"

subsection \<open>LogLikelihood\<close>

text \<open>Column \<open>j\<close> of \<open>likelihoods\<close>: entry \<open>i\<close> is \<open>weights(i) * phis(j)\<close> for component \<open>i\<close>.\<close>

definition likelihoods_col :: "density \<Rightarrow> gaussian list \<Rightarrow> vec \<Rightarrow> vec \<Rightarrow> vec" where
  "likelihoods_col P dists weights x =
     map (\<lambda>i. dmul (weights ! i) (P (dists ! i) x)) [0..<length dists]"

definition LogLikelihood :: "density \<Rightarrow> mat \<Rightarrow> gaussian list \<Rightarrow> vec \<Rightarrow> dbl" where
  "LogLikelihood P observations dists weights =
     foldl (\<lambda>logLikelihood x. dadd logLikelihood (dlog (accu (likelihoods_col P dists weights x))))
       (Fin 0) (cols observations)"

subsection \<open>The E-step\<close>

text \<open>
  Column \<open>i\<close> of \<open>condProb\<close> is written through an alias of that column: the densities of
  component \<open>i\<close>, each multiplied by \<open>weights[i]\<close>.
\<close>

definition condProb_cols :: "density \<Rightarrow> mat \<Rightarrow> gaussian list \<Rightarrow> vec \<Rightarrow> vec list" where
  "condProb_cols P observations dists weights =
     map (\<lambda>i. map (\<lambda>p. dmul p (weights ! i)) (Probability P (dists ! i) observations))
       [0..<length dists]"

text \<open>A row is divided by its sum unless the sum is zero.\<close>

definition normalize_row :: "vec \<Rightarrow> vec" where
  "normalize_row r = (let probSum = accu r in if dne0 probSum then vec_div r probSum else r)"

text \<open>
  The row-wise normalisation of a matrix of \<open>n\<close> rows given by its columns.  The loop over the
  rows changes row \<open>i\<close> only in step \<open>i\<close>, so every row is normalised from its original entries.
\<close>

definition normalize_rows :: "nat \<Rightarrow> vec list \<Rightarrow> vec list" where
  "normalize_rows n cs = map (\<lambda>i. map (\<lambda>j. normalize_row (row cs j) ! i) [0..<n]) [0..<length cs]"

definition E_step :: "density \<Rightarrow> mat \<Rightarrow> gaussian list \<Rightarrow> vec \<Rightarrow> vec list" where
  "E_step P observations dists weights =
     normalize_rows (n_cols observations) (condProb_cols P observations dists weights)"

subsection \<open>The M-step of the unweighted overload\<close>

text \<open>
  One round of the loop over the components, for a component \<open>d\<close>, its column \<open>c\<close> of
  \<open>condProb\<close> and its entry \<open>s\<close> of \<open>probRowSums\<close>.  The mean and the covariance are assigned
  under the test \<open>s != 0\<close>.
\<close>

definition update_dist :: "emfit \<Rightarrow> mat \<Rightarrow> vec \<Rightarrow> dbl \<Rightarrow> gaussian \<Rightarrow> gaussian" where
  "update_dist fit observations c s d =
     (let d1 = (if dne0 s then d\<lparr>Mean := vec_div (mat_vec observations c) s\<rparr> else d);
          tmp = centred observations (Mean d1);
          tmpB = col_scaled tmp c
      in if dne0 s
         then d1\<lparr>Covariance :=
                  constraint fit (mat_div (mul_trans (n_rows observations) tmp tmpB) s)\<rparr>
         else d1)"

subsection \<open>The M-step of the weighted overload\<close>

text \<open>
  Element-wise product \<open>c % probabilities\<close> of two vectors of the same size.  For operands
  of different sizes Armadillo raises an error: \<open>Estimate_weighted\<close> below returns it in
  place of the first pass.
\<close>

definition schur :: "vec \<Rightarrow> vec \<Rightarrow> vec" where
  "schur c probabilities = map2 dmul c probabilities"

text \<open>
  One round of the loop over the components in the weighted overload: the mean and the
  covariance are assigned without a test.
\<close>

definition update_dist_weighted :: "emfit \<Rightarrow> mat \<Rightarrow> vec \<Rightarrow> dbl \<Rightarrow> gaussian \<Rightarrow> gaussian" where
  "update_dist_weighted fit observations cp s d =
     (let d1 = d\<lparr>Mean := vec_div (mat_vec observations cp) s\<rparr>;
          tmp = centred observations (Mean d1);
          tmpB = col_scaled tmp cp;
          cov = mat_div (mul_trans (n_rows observations) tmp tmpB) s
      in d1\<lparr>Covariance := constraint fit cov\<rparr>)"

subsection \<open>The loops\<close>

text \<open>The variables of \<open>Estimate\<close> that the loop reads and writes.\<close>

record em_state =
  s_dists :: "gaussian list"
  s_weights :: vec
  s_l :: dbl
  s_lOld :: dbl
  s_iteration :: "64 word"

text \<open>The loop condition \<open>std::abs(l - lOld) > tolerance && iteration != maxIterations\<close>.\<close>

definition continues :: "emfit \<Rightarrow> em_state \<Rightarrow> bool" where
  "continues fit s =
     (dgt (dabs (dsub (s_l s) (s_lOld s))) (tolerance fit) \<and> s_iteration s \<noteq> maxIterations fit)"

text \<open>The loop body of the unweighted overload.\<close>

definition em_pass :: "density \<Rightarrow> emfit \<Rightarrow> mat \<Rightarrow> em_state \<Rightarrow> em_state" where
  "em_pass P fit observations s =
     (let condProb = E_step P observations (s_dists s) (s_weights s);
          probRowSums = map accu condProb;
          dists = map (\<lambda>i. update_dist fit observations (condProb ! i) (probRowSums ! i)
                             (s_dists s ! i)) [0..<length (s_dists s)];
          weights = vec_div probRowSums (Fin (real (n_cols observations)))
      in \<lparr>s_dists = dists, s_weights = weights,
          s_l = LogLikelihood P observations dists weights, s_lOld = s_l s,
          s_iteration = s_iteration s + 1\<rparr>)"

text \<open>The loop body of the weighted overload.\<close>

definition em_pass_weighted :: "density \<Rightarrow> emfit \<Rightarrow> mat \<Rightarrow> vec \<Rightarrow> em_state \<Rightarrow> em_state" where
  "em_pass_weighted P fit observations probabilities s =
     (let condProb = E_step P observations (s_dists s) (s_weights s);
          probRowSums = map (\<lambda>i. accu (schur (condProb ! i) probabilities))
                          [0..<length (s_dists s)];
          dists = map (\<lambda>i. update_dist_weighted fit observations
                             (schur (condProb ! i) probabilities) (probRowSums ! i)
                             (s_dists s ! i)) [0..<length (s_dists s)];
          weights = vec_div probRowSums (accu probabilities)
      in \<lparr>s_dists = dists, s_weights = weights,
          s_l = LogLikelihood P observations dists weights, s_lOld = s_l s,
          s_iteration = s_iteration s + 1\<rparr>)"

text \<open>
  The \<open>while\<close> loops.  The counter is a \<open>size_t\<close>, whose increment wraps around, so the distance
  from the counter to \<open>maxIterations\<close> decreases in every pass and both loops terminate.
\<close>

function em_loop :: "density \<Rightarrow> emfit \<Rightarrow> mat \<Rightarrow> em_state \<Rightarrow> em_state" where
  "em_loop P fit observations s =
     (if continues fit s then em_loop P fit observations (em_pass P fit observations s) else s)"
  by pat_completeness auto

function em_loop_weighted :: "density \<Rightarrow> emfit \<Rightarrow> mat \<Rightarrow> vec \<Rightarrow> em_state \<Rightarrow> em_state" where
  "em_loop_weighted P fit observations probabilities s =
     (if continues fit s
      then em_loop_weighted P fit observations probabilities
             (em_pass_weighted P fit observations probabilities s)
      else s)"
  by pat_completeness auto

termination em_loop
proof (relation "measure (\<lambda>(P, fit, observations, s). unat (maxIterations fit - s_iteration s))")
  show "wf (measure (\<lambda>(P :: density, fit, observations :: mat, s).
              unat (maxIterations fit - s_iteration s)))"
    by simp
next
  fix P :: density and fit :: emfit and observations :: mat and s :: em_state
  assume "continues fit s"
  then have nz: "maxIterations fit - s_iteration s \<noteq> 0"
    by (auto simp: continues_def)
  have "unat (maxIterations fit - (s_iteration s + 1))
          = unat ((maxIterations fit - s_iteration s) - 1)"
    by (rule arg_cong [where f = unat]) simp
  also have "\<dots> = unat (maxIterations fit - s_iteration s) - 1"
    using nz by (rule unat_minus_one)
  also have "\<dots> < unat (maxIterations fit - s_iteration s)"
    using nz by (simp add: unat_gt_0)
  finally show "((P, fit, observations, em_pass P fit observations s), (P, fit, observations, s))
                  \<in> measure (\<lambda>(P, fit, observations, s).
                       unat (maxIterations fit - s_iteration s))"
    by (simp add: em_pass_def Let_def)
qed

termination em_loop_weighted
proof (relation "measure (\<lambda>(P, fit, observations, probabilities, s).
                   unat (maxIterations fit - s_iteration s))")
  show "wf (measure (\<lambda>(P :: density, fit, observations :: mat, probabilities :: vec, s).
              unat (maxIterations fit - s_iteration s)))"
    by simp
next
  fix P :: density and fit :: emfit and observations :: mat and probabilities :: vec
    and s :: em_state
  assume "continues fit s"
  then have nz: "maxIterations fit - s_iteration s \<noteq> 0"
    by (auto simp: continues_def)
  have "unat (maxIterations fit - (s_iteration s + 1))
          = unat ((maxIterations fit - s_iteration s) - 1)"
    by (rule arg_cong [where f = unat]) simp
  also have "\<dots> = unat (maxIterations fit - s_iteration s) - 1"
    using nz by (rule unat_minus_one)
  also have "\<dots> < unat (maxIterations fit - s_iteration s)"
    using nz by (simp add: unat_gt_0)
  finally show "((P, fit, observations, probabilities,
                   em_pass_weighted P fit observations probabilities s),
                  (P, fit, observations, probabilities, s))
                  \<in> measure (\<lambda>(P, fit, observations, probabilities, s).
                       unat (maxIterations fit - s_iteration s))"
    by (simp add: em_pass_weighted_def Let_def)
qed

declare em_loop.simps [simp del] em_loop_weighted.simps [simp del]

text \<open>
  The loop started in state \<open>s\<close> executes exactly \<open>n\<close> passes: the loop condition holds in
  the first \<open>n\<close> states and fails in the next.
\<close>

definition executes :: "(em_state \<Rightarrow> em_state) \<Rightarrow> emfit \<Rightarrow> em_state \<Rightarrow> nat \<Rightarrow> bool" where
  "executes pass fit s n =
     ((\<forall>k<n. continues fit ((pass ^^ k) s)) \<and> \<not> continues fit ((pass ^^ n) s))"

subsection \<open>InitialClustering\<close>

definition zeros_vec :: "nat \<Rightarrow> vec" where
  "zeros_vec n = replicate n (Fin 0)"

definition zeros_mat :: "nat \<Rightarrow> nat \<Rightarrow> mat" where
  "zeros_mat r c = \<lparr>n_rows = r, cols = replicate c (zeros_vec r)\<rparr>"

definition vec_add :: "vec \<Rightarrow> vec \<Rightarrow> vec" where
  "vec_add x y = map2 dadd x y"

definition vec_sub :: "vec \<Rightarrow> vec \<Rightarrow> vec" where
  "vec_sub x y = map2 dsub x y"

definition mat_add :: "mat \<Rightarrow> mat \<Rightarrow> mat" where
  "mat_add A B = A\<lparr>cols := map2 vec_add (cols A) (cols B)\<rparr>"

text \<open>\<open>x * trans(y)\<close> for two column vectors.\<close>

definition outer :: "vec \<Rightarrow> vec \<Rightarrow> mat" where
  "outer x y = \<lparr>n_rows = length x, cols = map (\<lambda>b. map (\<lambda>a. dmul a b) x) y\<rparr>"

text \<open>The divisor \<open>(weights[i] > 1) ? weights[i] : 1\<close>.\<close>

definition count_or_one :: "dbl \<Rightarrow> dbl" where
  "count_or_one w = (if dgt w (Fin 1) then w else Fin 1)"

text \<open>
  The first loop over the points adds point \<open>i\<close> to the mean of its cluster, its outer product
  with itself to the covariance of its cluster, and one to the weight of its cluster.
\<close>

definition accumulate_point ::
  "mat \<Rightarrow> nat list \<Rightarrow> vec list \<times> mat list \<times> vec \<Rightarrow> nat \<Rightarrow> vec list \<times> mat list \<times> vec" where
  "accumulate_point observations assignments acc i =
     (case acc of (means, covs, weights) \<Rightarrow>
        (let cluster = assignments ! i; x = cols observations ! i
         in (means[cluster := vec_add (means ! cluster) x],
             covs[cluster := mat_add (covs ! cluster) (outer x x)],
             weights[cluster := dadd (weights ! cluster) (Fin 1)])))"

text \<open>
  The second loop over the points adds to the covariance of the cluster of point \<open>i\<close> the
  outer product of the point minus the mean of its cluster.
\<close>

definition accumulate_centred :: "mat \<Rightarrow> nat list \<Rightarrow> vec list \<Rightarrow> mat list \<Rightarrow> nat \<Rightarrow> mat list" where
  "accumulate_centred observations assignments means covs i =
     (let cluster = assignments ! i;
          normObs = vec_sub (cols observations ! i) (means ! cluster)
      in covs[cluster := mat_add (covs ! cluster) (outer normObs normObs)])"

text \<open>
  \<open>InitialClustering\<close> returns the new components and weights.  A label of the clusterer
  that is not below the number of components is outside what the source defines.
\<close>

definition InitialClustering ::
  "emfit \<Rightarrow> mat \<Rightarrow> gaussian list \<Rightarrow> vec \<Rightarrow> gaussian list \<times> vec" where
  "InitialClustering fit observations dists weights =
     (let assignments = clusterer fit observations (length dists);
          means0 = map (\<lambda>d. zeros_vec (length (Mean d))) dists;
          covs0 = map (\<lambda>d. zeros_mat (n_rows (Covariance d)) (n_cols (Covariance d))) dists;
          weights0 = zeros_vec (length weights);
          (means1, covs1, weights1) =
            foldl (accumulate_point observations assignments) (means0, covs0, weights0)
              [0..<n_cols observations];
          means2 = map (\<lambda>i. vec_div (means1 ! i) (count_or_one (weights1 ! i)))
                     [0..<length dists];
          covs2 = foldl (accumulate_centred observations assignments means2) covs1
                    [0..<n_cols observations];
          dists' = map (\<lambda>i. \<lparr>Mean = means2 ! i,
                              Covariance = constraint fit
                                (mat_div (covs2 ! i) (count_or_one (weights1 ! i)))\<rparr>)
                     [0..<length dists]
      in (dists', vec_div weights1 (accu weights1)))"

subsection \<open>ArmadilloGMMWrapper\<close>

text \<open>
  \<open>arma::gmm_diag\<close> belongs to Armadillo.  Its state is the three members the wrapper reads.
  The call \<open>g.learn(data, n_gaus, dist_mode, seed_mode, km_iter, em_iter, var_floor,
  print_mode)\<close> is a parameter of the model that maps the state before the call and the eight
  arguments, named as Armadillo names them, to the state after the call.
\<close>

record gmm_diag =
  hefts :: vec
  means :: mat
  dcovs :: mat

datatype dist_mode = eucl_dist

datatype seed_mode = keep_existing | static_subset

record learn_args =
  arg_data :: mat
  arg_n_gaus :: nat
  arg_dist_mode :: dist_mode
  arg_seed_mode :: seed_mode
  arg_km_iter :: nat
  arg_em_iter :: "64 word"
  arg_var_floor :: dbl
  arg_print_mode :: bool

type_synonym learner = "gmm_diag \<Rightarrow> learn_args \<Rightarrow> gmm_diag"

text \<open>A default-constructed \<open>arma::gmm_diag\<close>.\<close>

definition gmm_diag_empty :: gmm_diag where
  "gmm_diag_empty = \<lparr>hefts = [], means = zeros_mat 0 0, dcovs = zeros_mat 0 0\<rparr>"

text \<open>The main diagonal of a square matrix, and the diagonal matrix of a vector.\<close>

definition diag :: "mat \<Rightarrow> vec" where
  "diag M = map (\<lambda>r. cols M ! r ! r) [0..<n_rows M]"

definition diagmat :: "vec \<Rightarrow> mat" where
  "diagmat v =
     \<lparr>n_rows = length v,
      cols = map (\<lambda>s. map (\<lambda>r. if r = s then v ! r else Fin 0) [0..<length v]) [0..<length v]\<rparr>"

text \<open>The literal \<open>1e-10\<close>.\<close>

definition lit_1e_10 :: dbl where
  "lit_1e_10 = Fin (1 / 10 ^ 10)"

text \<open>
  The arguments of the call of \<open>learn\<close> and the state of \<open>g\<close> before it: after
  \<open>set_params\<close> where the wrapper seeds the learner, default-constructed where Armadillo
  does the initial clustering.
\<close>

definition learn_call :: "emfit \<Rightarrow> mat \<Rightarrow> gaussian list \<Rightarrow> vec \<Rightarrow> bool \<Rightarrow> gmm_diag \<times> learn_args" where
  "learn_call fit observations dists weights useInitialModel =
     (if \<not> clusterer_is_KMeans fit \<or> useInitialModel
      then (let (dists0, weights0) =
                  (if \<not> useInitialModel then InitialClustering fit observations dists weights
                   else (dists, weights));
                g = \<lparr>hefts = weights0,
                     means = \<lparr>n_rows = n_rows observations, cols = map Mean dists0\<rparr>,
                     dcovs = \<lparr>n_rows = n_rows observations,
                              cols = map (\<lambda>d. diag (Covariance d)) dists0\<rparr>\<rparr>
            in (g, \<lparr>arg_data = observations, arg_n_gaus = length dists,
                     arg_dist_mode = eucl_dist, arg_seed_mode = keep_existing, arg_km_iter = 0,
                     arg_em_iter = maxIterations fit, arg_var_floor = lit_1e_10,
                     arg_print_mode = False\<rparr>))
      else (gmm_diag_empty,
            \<lparr>arg_data = observations, arg_n_gaus = length dists, arg_dist_mode = eucl_dist,
             arg_seed_mode = static_subset, arg_km_iter = 1000,
             arg_em_iter = maxIterations fit, arg_var_floor = lit_1e_10,
             arg_print_mode = False\<rparr>))"

text \<open>The state of \<open>g\<close> after the call of \<open>learn\<close>.\<close>

definition learned ::
  "learner \<Rightarrow> emfit \<Rightarrow> mat \<Rightarrow> gaussian list \<Rightarrow> vec \<Rightarrow> bool \<Rightarrow> gmm_diag" where
  "learned learn fit observations dists weights useInitialModel =
     (case learn_call fit observations dists weights useInitialModel of (g, args) \<Rightarrow> learn g args)"

definition ArmadilloGMMWrapper ::
  "learner \<Rightarrow> emfit \<Rightarrow> mat \<Rightarrow> gaussian list \<Rightarrow> vec \<Rightarrow> bool \<Rightarrow> gaussian list \<times> vec" where
  "ArmadilloGMMWrapper learn fit observations dists weights useInitialModel =
     (let g = learned learn fit observations dists weights useInitialModel
      in (map (\<lambda>i. \<lparr>Mean = cols (means g) ! i, Covariance = diagmat (cols (dcovs g) ! i)\<rparr>)
            [0..<length dists],
          hefts g))"

subsection \<open>Estimate\<close>

text \<open>The value \<open>-DBL_MAX\<close> of \<open>lOld\<close> and the value 1 of \<open>iteration\<close> before the loop.\<close>

definition initial_state :: "density \<Rightarrow> mat \<Rightarrow> gaussian list \<Rightarrow> vec \<Rightarrow> em_state" where
  "initial_state P observations dists weights =
     \<lparr>s_dists = dists, s_weights = weights, s_l = LogLikelihood P observations dists weights,
      s_lOld = Fin (- DBL_MAX), s_iteration = 1\<rparr>"

text \<open>
  The unweighted overload.  The shortcut to \<open>ArmadilloGMMWrapper\<close> is compiled only where
  \<open>_WIN32\<close> is not defined.
\<close>

definition Estimate ::
  "density \<Rightarrow> learner \<Rightarrow> emfit \<Rightarrow> mat \<Rightarrow> gaussian list \<Rightarrow> vec \<Rightarrow> bool \<Rightarrow> gaussian list \<times> vec" where
  "Estimate P learn fit observations dists weights useInitialModel =
     (if \<not> WIN32 fit \<and> policy_is_DiagonalConstraint fit
      then ArmadilloGMMWrapper learn fit observations dists weights useInitialModel
      else (let (dists0, weights0) =
                  (if \<not> useInitialModel then InitialClustering fit observations dists weights
                   else (dists, weights));
                s = em_loop P fit observations (initial_state P observations dists0 weights0)
            in (s_dists s, s_weights s)))"

text \<open>
  The weighted overload.  Armadillo raises a \<open>std::logic_error\<close> where the two operands of
  \<open>%\<close> differ in size.  The sizes of \<open>condProb.col(i)\<close> and \<open>probabilities\<close> are the same in
  every pass, so the first round of the loop over the components in the first pass raises the
  error, or no pass does.
\<close>

datatype error = size_mismatch

definition Estimate_weighted ::
  "density \<Rightarrow> emfit \<Rightarrow> mat \<Rightarrow> vec \<Rightarrow> gaussian list \<Rightarrow> vec \<Rightarrow> bool \<Rightarrow> error + gaussian list \<times> vec" where
  "Estimate_weighted P fit observations probabilities dists weights useInitialModel =
     (let (dists0, weights0) =
            (if \<not> useInitialModel then InitialClustering fit observations dists weights
             else (dists, weights));
          s0 = initial_state P observations dists0 weights0
      in if continues fit s0 \<and> dists0 \<noteq> [] \<and> length probabilities \<noteq> n_cols observations
         then Inl size_mismatch
         else (let s = em_loop_weighted P fit observations probabilities s0
               in Inr (s_dists s, s_weights s)))"

text \<open>The components and weights with which the loop of \<open>Estimate\<close> starts.\<close>

definition seed_model :: "emfit \<Rightarrow> mat \<Rightarrow> gaussian list \<Rightarrow> vec \<Rightarrow> bool \<Rightarrow> gaussian list \<times> vec" where
  "seed_model fit observations dists weights useInitialModel =
     (if \<not> useInitialModel then InitialClustering fit observations dists weights
      else (dists, weights))"

text \<open>The state with which the loop of \<open>Estimate\<close> starts.\<close>

definition start_state :: "density \<Rightarrow> emfit \<Rightarrow> mat \<Rightarrow> gaussian list \<Rightarrow> vec \<Rightarrow> bool \<Rightarrow> em_state" where
  "start_state P fit observations dists weights useInitialModel =
     initial_state P observations
       (fst (seed_model fit observations dists weights useInitialModel))
       (snd (seed_model fit observations dists weights useInitialModel))"

subsection \<open>Responsibilities of finite inputs\<close>


subsection \<open>Effective mass\<close>

text \<open>No component has Effective Mass zero in the E-step from state \<open>s\<close>.\<close>

definition no_zero_mass :: "density \<Rightarrow> mat \<Rightarrow> em_state \<Rightarrow> bool" where
  "no_zero_mass P observations s =
     (\<forall>i<length (s_dists s).
        dne0 (accu (E_step P observations (s_dists s) (s_weights s) ! i)))"

subsection \<open>The two-pass covariance\<close>

text \<open>
  The covariance of cluster \<open>k\<close> in the words of the specification: the sum of the outer
  products of the centred points assigned to \<open>k\<close>, divided by the assigned count or by one.
\<close>

definition centred_covariance :: "mat \<Rightarrow> nat list \<Rightarrow> nat \<Rightarrow> vec \<Rightarrow> dbl \<Rightarrow> mat" where
  "centred_covariance observations assignments k mean count =
     mat_div
       (foldl (\<lambda>C i. if assignments ! i = k
                       then mat_add C (outer (vec_sub (cols observations ! i) mean)
                                             (vec_sub (cols observations ! i) mean))
                       else C)
          (zeros_mat (n_rows observations) (n_rows observations)) [0..<n_cols observations])
       (count_or_one count)"

section \<open>Concrete inputs\<close>

text \<open>
  A fitter with the identity constraint, no shortcut and a given iteration cap and tolerance; a
  density that is one everywhere; two points on a line; a single component at the origin with
  unit variance.
\<close>

definition ex_fit :: "64 word \<Rightarrow> dbl \<Rightarrow> emfit" where
  "ex_fit m tol =
     \<lparr>maxIterations = m, tolerance = tol, clusterer = (\<lambda>observations k. []),
      constraint = (\<lambda>M. M), policy_is_DiagonalConstraint = False,
      clusterer_is_KMeans = False, WIN32 = False\<rparr>"

definition ex_P :: density where
  "ex_P = (\<lambda>d x. Fin 1)"

definition ex_obs :: mat where
  "ex_obs = \<lparr>n_rows = 1, cols = [[Fin 0], [Fin 2]]\<rparr>"

definition ex_dists :: "gaussian list" where
  "ex_dists = [\<lparr>Mean = [Fin 0], Covariance = \<lparr>n_rows = 1, cols = [[Fin 1]]\<rparr>\<rparr>]"

text \<open>
  The state that the loop on these inputs reaches after its first pass and keeps, up to the
  counter.
\<close>

definition ex_fixed :: "64 word \<Rightarrow> em_state" where
  "ex_fixed i =
     \<lparr>s_dists = [\<lparr>Mean = [Fin 1], Covariance = \<lparr>n_rows = 1, cols = [[Fin 1]]\<rparr>\<rparr>],
      s_weights = [Fin 1], s_l = Fin 0, s_lOld = Fin 0, s_iteration = i\<rparr>"

text \<open>A learner that returns the state of \<open>g\<close> as it finds it.\<close>

definition ex_learn :: learner where
  "ex_learn = (\<lambda>g args. g)"

text \<open>A density that is zero at the point 2 and one elsewhere.\<close>

definition ex_P_outlier :: density where
  "ex_P_outlier = (\<lambda>d x. if x = [Fin 2] then Fin 0 else Fin 1)"

text \<open>An observation set without points, and two components.\<close>

definition ex_no_obs :: mat where
  "ex_no_obs = \<lparr>n_rows = 1, cols = []\<rparr>"

definition ex_two_dists :: "gaussian list" where
  "ex_two_dists =
     [\<lparr>Mean = [Fin 0], Covariance = \<lparr>n_rows = 1, cols = [[Fin 1]]\<rparr>\<rparr>,
      \<lparr>Mean = [Fin 2], Covariance = \<lparr>n_rows = 1, cols = [[Fin 1]]\<rparr>\<rparr>]"

text \<open>A fitter whose clusterer puts two points into cluster 0.\<close>

definition ex_fit_cluster :: emfit where
  "ex_fit_cluster = (ex_fit 3 (Fin 0))\<lparr>clusterer := (\<lambda>observations k. [0, 0])\<rparr>"

text \<open>
  A learner that runs no iteration and raises every variance below \<open>var_floor\<close> to it, and a
  single component at the origin with variance zero.
\<close>

definition ex_learn_floor :: learner where
  "ex_learn_floor =
     (\<lambda>g args. g\<lparr>dcovs := \<lparr>n_rows = n_rows (dcovs g),
                              cols = map (map (\<lambda>v. if dgt (arg_var_floor args) v
                                                     then arg_var_floor args else v))
                                       (cols (dcovs g))\<rparr>\<rparr>)"

definition ex_point_dists :: "gaussian list" where
  "ex_point_dists = [\<lparr>Mean = [Fin 0], Covariance = \<lparr>n_rows = 1, cols = [[Fin 0]]\<rparr>\<rparr>]"

text \<open>
  A density on the line that depends on the component: \<open>1 / (v * (1 + (x - m)\<^sup>2))\<close> for a
  component of mean \<open>m\<close> and variance \<open>v\<close>.  It is infinite for a component of variance zero,
  such as the second of the two components below.
\<close>

definition ex_P_bell :: density where
  "ex_P_bell =
     (\<lambda>d x. ddiv (Fin 1)
              (dmul (cols (Covariance d) ! 0 ! 0)
                 (dadd (Fin 1) (dmul (dsub (x ! 0) (Mean d ! 0)) (dsub (x ! 0) (Mean d ! 0))))))"

definition ex_two_dists_point :: "gaussian list" where
  "ex_two_dists_point =
     [\<lparr>Mean = [Fin 0], Covariance = \<lparr>n_rows = 1, cols = [[Fin 1]]\<rparr>\<rparr>,
      \<lparr>Mean = [Fin 2], Covariance = \<lparr>n_rows = 1, cols = [[Fin 0]]\<rparr>\<rparr>]"
section \<open>Sums of finite values\<close>

lemma foldl_dadd_Fin:
  "foldl dadd (Fin a) (map (\<lambda>i. Fin (f i)) xs) = Fin (a + sum_list (map f xs))"
  by (induction xs arbitrary: a) (simp_all add: add.assoc)

lemma accu_Fin: "accu (map (\<lambda>i. Fin (f i)) xs) = Fin (sum_list (map f xs))"
  by (simp add: accu_def foldl_dadd_Fin)

lemma accu_Fin_upt: "accu (map (\<lambda>i. Fin (f i)) [0..<n]) = Fin (\<Sum>i<n. f i)"
  by (simp add: accu_Fin interv_sum_list_conv_sum_set_nat atLeast0LessThan)



section \<open>The row-wise normalisation\<close>







section \<open>The number of passes\<close>

lemma initial_state_sel [simp]:
  "s_dists (initial_state P observations dists weights) = dists"
  "s_weights (initial_state P observations dists weights) = weights"
  "s_iteration (initial_state P observations dists weights) = 1"
  by (simp_all add: initial_state_def)

lemma s_iteration_em_pass [simp]:
  "s_iteration (em_pass P fit observations s) = s_iteration s + 1"
  by (simp add: em_pass_def Let_def)

lemma s_iteration_em_pass_weighted [simp]:
  "s_iteration (em_pass_weighted P fit observations probabilities s) = s_iteration s + 1"
  by (simp add: em_pass_weighted_def Let_def)

lemma executes_Suc:
  assumes "continues fit s" and "executes pass fit (pass s) n"
  shows "executes pass fit s (Suc n)"
  unfolding executes_def
proof (intro conjI allI impI)
  fix k assume "k < Suc n"
  show "continues fit ((pass ^^ k) s)"
  proof (cases k)
    case 0
    then show ?thesis using assms(1) by simp
  next
    case (Suc k')
    then have "k' < n" using \<open>k < Suc n\<close> by simp
    then have "continues fit ((pass ^^ k') (pass s))"
      using assms(2) by (simp add: executes_def)
    then show ?thesis by (simp add: Suc funpow_swap1)
  qed
next
  show "\<not> continues fit ((pass ^^ Suc n) s)"
    using assms(2) by (simp add: executes_def funpow_swap1)
qed

lemma counter_distance:
  fixes i m :: "64 word"
  assumes "i \<noteq> m"
  shows "Suc (unat (m - (i + 1))) = unat (m - i)"
proof -
  have nz: "m - i \<noteq> 0" using assms by auto
  have "unat (m - (i + 1)) = unat ((m - i) - 1)"
    by (rule arg_cong [where f = unat]) simp
  also have "\<dots> = unat (m - i) - 1" using nz by (rule unat_minus_one)
  finally show ?thesis using nz by (simp add: unat_gt_0)
qed

lemma em_loop_executes:
  "\<exists>n\<le>unat (maxIterations fit - s_iteration s).
     executes (em_pass P fit observations) fit s n \<and>
     em_loop P fit observations s = (em_pass P fit observations ^^ n) s"
proof (induction P fit observations s rule: em_loop.induct)
  case (1 P fit observations s)
  show ?case
  proof (cases "continues fit s")
    case False
    then have "executes (em_pass P fit observations) fit s 0"
      by (simp add: executes_def)
    moreover have "em_loop P fit observations s = (em_pass P fit observations ^^ 0) s"
      using False by (simp add: em_loop.simps [of P fit observations s])
    ultimately show ?thesis by blast
  next
    case True
    then obtain n where n: "n \<le> unat (maxIterations fit - (s_iteration s + 1))"
      and ex: "executes (em_pass P fit observations) fit (em_pass P fit observations s) n"
      and eq: "em_loop P fit observations (em_pass P fit observations s) =
                 (em_pass P fit observations ^^ n) (em_pass P fit observations s)"
      using "1.IH" by auto
    have ne: "s_iteration s \<noteq> maxIterations fit" using True by (simp add: continues_def)
    have "Suc n \<le> unat (maxIterations fit - s_iteration s)"
      using n counter_distance [OF ne] by simp
    moreover have "executes (em_pass P fit observations) fit s (Suc n)"
      using True ex by (rule executes_Suc)
    moreover have "em_loop P fit observations s = (em_pass P fit observations ^^ Suc n) s"
      using True eq by (simp add: funpow_swap1 em_loop.simps [of P fit observations s])
    ultimately show ?thesis by blast
  qed
qed

lemma em_loop_weighted_executes:
  "\<exists>n\<le>unat (maxIterations fit - s_iteration s).
     executes (em_pass_weighted P fit observations probabilities) fit s n \<and>
     em_loop_weighted P fit observations probabilities s =
       (em_pass_weighted P fit observations probabilities ^^ n) s"
proof (induction P fit observations probabilities s rule: em_loop_weighted.induct)
  case (1 P fit observations probabilities s)
  let ?pass = "em_pass_weighted P fit observations probabilities"
  show ?case
  proof (cases "continues fit s")
    case False
    then have "executes ?pass fit s 0"
      by (simp add: executes_def)
    moreover have "em_loop_weighted P fit observations probabilities s = (?pass ^^ 0) s"
      using False by (simp add: em_loop_weighted.simps [of P fit observations probabilities s])
    ultimately show ?thesis by blast
  next
    case True
    then obtain n where n: "n \<le> unat (maxIterations fit - (s_iteration s + 1))"
      and ex: "executes ?pass fit (?pass s) n"
      and eq: "em_loop_weighted P fit observations probabilities (?pass s) =
                 (?pass ^^ n) (?pass s)"
      using "1.IH" by auto
    have ne: "s_iteration s \<noteq> maxIterations fit" using True by (simp add: continues_def)
    have "Suc n \<le> unat (maxIterations fit - s_iteration s)"
      using n counter_distance [OF ne] by simp
    moreover have "executes ?pass fit s (Suc n)"
      using True ex by (rule executes_Suc)
    moreover have "em_loop_weighted P fit observations probabilities s = (?pass ^^ Suc n) s"
      using True eq
      by (simp add: funpow_swap1 em_loop_weighted.simps [of P fit observations probabilities s])
    ultimately show ?thesis by blast
  qed
qed


lemma s_iteration_funpow_em_pass:
  "s_iteration ((em_pass P fit observations ^^ k) s) = s_iteration s + of_nat k"
  by (induction k) simp_all

lemma s_iteration_funpow_em_pass_weighted:
  "s_iteration ((em_pass_weighted P fit observations probabilities ^^ k) s)
     = s_iteration s + of_nat k"
  by (induction k) simp_all

lemma counter_not_wrapped:
  assumes "k < 2 ^ 64 - 1"
  shows "(1 :: 64 word) + of_nat k \<noteq> 0"
proof
  assume "(1 :: 64 word) + of_nat k = 0"
  then have "(of_nat (Suc k) :: 64 word) = 0" by simp
  then have "unat (of_nat (Suc k) :: 64 word) = 0" by (simp only: unat_0)
  then have "Suc k mod 2 ^ LENGTH(64) = 0" by (simp only: unat_of_nat)
  then have "Suc k mod 2 ^ 64 = 0" by simp
  moreover have "Suc k mod 2 ^ 64 = Suc k" using assms by simp
  ultimately show False by simp
qed

lemma em_loop_stop: "\<not> continues fit s \<Longrightarrow> em_loop P fit observations s = s"
  by (simp add: em_loop.simps [of P fit observations s])

lemma em_loop_step:
  "continues fit s \<Longrightarrow>
     em_loop P fit observations s = em_loop P fit observations (em_pass P fit observations s)"
  by (simp add: em_loop.simps [of P fit observations s])

lemma em_loop_weighted_stop:
  "\<not> continues fit s \<Longrightarrow> em_loop_weighted P fit observations probabilities s = s"
  by (simp add: em_loop_weighted.simps [of P fit observations probabilities s])

lemma em_loop_weighted_step:
  "continues fit s \<Longrightarrow>
     em_loop_weighted P fit observations probabilities s =
       em_loop_weighted P fit observations probabilities
         (em_pass_weighted P fit observations probabilities s)"
  by (simp add: em_loop_weighted.simps [of P fit observations probabilities s])

text \<open>
  Claim C4, as amended.  In both overloads the counter starts at 1 and the loop runs while
  \<open>|l - lOld| > tolerance\<close> and \<open>iteration != maxIterations\<close>.  The loop executes at most
  \<open>maxIterations - 1\<close> passes in the arithmetic of the 64-bit counter: that is
  \<open>maxIterations - 1\<close> passes for \<open>maxIterations >= 1\<close>, none for \<open>maxIterations = 1\<close>, and
  \<open>2^64 - 1\<close> passes for \<open>maxIterations = 0\<close>, where the counter differs from
  \<open>maxIterations\<close> in each of the first \<open>2^64 - 1\<close> states, so that only the convergence
  test can end the loop before the counter wraps around.
\<close>

theorem iteration_cap:
  "(\<exists>n\<le>unat (maxIterations fit - 1).
      executes (em_pass P fit observations) fit (initial_state P observations dists weights) n \<and>
      em_loop P fit observations (initial_state P observations dists weights) =
        (em_pass P fit observations ^^ n) (initial_state P observations dists weights)) \<and>
   (\<exists>n\<le>unat (maxIterations fit - 1).
      executes (em_pass_weighted P fit observations probabilities) fit
        (initial_state P observations dists weights) n \<and>
      em_loop_weighted P fit observations probabilities
          (initial_state P observations dists weights) =
        (em_pass_weighted P fit observations probabilities ^^ n)
          (initial_state P observations dists weights)) \<and>
   (maxIterations fit \<noteq> 0 \<longrightarrow> unat (maxIterations fit - 1) = unat (maxIterations fit) - 1) \<and>
   (maxIterations fit = 1 \<longrightarrow>
      em_loop P fit observations (initial_state P observations dists weights) =
        initial_state P observations dists weights \<and>
      em_loop_weighted P fit observations probabilities
          (initial_state P observations dists weights) =
        initial_state P observations dists weights) \<and>
   (maxIterations fit = 0 \<longrightarrow>
      unat (maxIterations fit - 1) = 2 ^ 64 - 1 \<and>
      (\<forall>k<2 ^ 64 - 1.
         s_iteration ((em_pass P fit observations ^^ k)
           (initial_state P observations dists weights)) \<noteq> maxIterations fit \<and>
         s_iteration ((em_pass_weighted P fit observations probabilities ^^ k)
           (initial_state P observations dists weights)) \<noteq> maxIterations fit))"
proof (intro conjI impI allI)
  show "\<exists>n\<le>unat (maxIterations fit - 1).
      executes (em_pass P fit observations) fit (initial_state P observations dists weights) n \<and>
      em_loop P fit observations (initial_state P observations dists weights) =
        (em_pass P fit observations ^^ n) (initial_state P observations dists weights)"
    using em_loop_executes [of fit "initial_state P observations dists weights" P observations]
    by (simp add: initial_state_def)
next
  show "\<exists>n\<le>unat (maxIterations fit - 1).
      executes (em_pass_weighted P fit observations probabilities) fit
        (initial_state P observations dists weights) n \<and>
      em_loop_weighted P fit observations probabilities
          (initial_state P observations dists weights) =
        (em_pass_weighted P fit observations probabilities ^^ n)
          (initial_state P observations dists weights)"
    using em_loop_weighted_executes
      [of fit "initial_state P observations dists weights" P observations probabilities]
    by (simp add: initial_state_def)
next
  assume "maxIterations fit \<noteq> 0"
  then show "unat (maxIterations fit - 1) = unat (maxIterations fit) - 1"
    by (rule unat_minus_one)
next
  assume m: "maxIterations fit = 1"
  then have "\<not> continues fit (initial_state P observations dists weights)"
    by (simp add: continues_def initial_state_def)
  then show "em_loop P fit observations (initial_state P observations dists weights) =
        initial_state P observations dists weights"
    by (simp add: em_loop.simps [of P fit observations "initial_state P observations dists weights"])
next
  assume m: "maxIterations fit = 1"
  then have "\<not> continues fit (initial_state P observations dists weights)"
    by (simp add: continues_def initial_state_def)
  then show "em_loop_weighted P fit observations probabilities
          (initial_state P observations dists weights) =
        initial_state P observations dists weights"
    by (simp add: em_loop_weighted.simps
          [of P fit observations probabilities "initial_state P observations dists weights"])
next
  assume "maxIterations fit = 0"
  then show "unat (maxIterations fit - 1) = 2 ^ 64 - 1"
    by (simp add: unsigned_minus_1_eq_mask mask_eq_exp_minus_1)
next
  fix k :: nat
  assume m: "maxIterations fit = 0" and k: "k < 2 ^ 64 - 1"
  show "s_iteration ((em_pass P fit observations ^^ k)
           (initial_state P observations dists weights)) \<noteq> maxIterations fit"
    using counter_not_wrapped [OF k]
    by (simp add: s_iteration_funpow_em_pass m initial_state_def)
next
  fix k :: nat
  assume m: "maxIterations fit = 0" and k: "k < 2 ^ 64 - 1"
  show "s_iteration ((em_pass_weighted P fit observations probabilities ^^ k)
           (initial_state P observations dists weights)) \<noteq> maxIterations fit"
    using counter_not_wrapped [OF k]
    by (simp add: s_iteration_funpow_em_pass_weighted m initial_state_def)
qed

subsection \<open>The loop on concrete inputs\<close>

lemmas ex_eval = em_pass_def E_step_def condProb_cols_def Probability_def normalize_rows_def
  normalize_row_def row_def accu_def dne0_def vec_div_def update_dist_def mat_vec_def
  centred_def col_scaled_def mul_trans_def mat_div_def LogLikelihood_def likelihoods_col_def
  n_cols_def ex_P_def ex_fit_def ex_obs_def Let_def dsub_def

lemma ex_pass:
  "em_pass ex_P (ex_fit m tol) ex_obs
     \<lparr>s_dists = [\<lparr>Mean = [Fin a], Covariance = C\<rparr>], s_weights = [Fin 1], s_l = x,
      s_lOld = y, s_iteration = i\<rparr> =
   \<lparr>s_dists = [\<lparr>Mean = [Fin 1], Covariance = \<lparr>n_rows = 1, cols = [[Fin 1]]\<rparr>\<rparr>],
    s_weights = [Fin 1], s_l = Fin 0, s_lOld = x, s_iteration = i + 1\<rparr>"
  by (simp add: ex_eval)

lemma ex_initial_state:
  "initial_state ex_P ex_obs ex_dists [Fin 1] =
     \<lparr>s_dists = ex_dists, s_weights = [Fin 1], s_l = Fin 0, s_lOld = Fin (- DBL_MAX),
      s_iteration = 1\<rparr>"
  by (simp add: initial_state_def LogLikelihood_def likelihoods_col_def ex_obs_def ex_P_def
      ex_dists_def accu_def)

lemma DBL_MAX_pos: "0 < DBL_MAX"
  by (simp add: DBL_MAX_def)

lemma ex_loop_wraps:
  "em_loop ex_P (ex_fit 0 (Fin (- 1))) ex_obs (ex_fixed i) = ex_fixed 0"
proof (induction "unat (0 - i)" arbitrary: i rule: less_induct)
  case less
  show ?case
  proof (cases "i = 0")
    case True
    then have "\<not> continues (ex_fit 0 (Fin (- 1))) (ex_fixed i)"
      by (simp add: continues_def ex_fit_def ex_fixed_def)
    then have "em_loop ex_P (ex_fit 0 (Fin (- 1))) ex_obs (ex_fixed i) = ex_fixed i"
      by (rule em_loop_stop)
    then show ?thesis
      using True by simp
  next
    case False
    then have c: "continues (ex_fit 0 (Fin (- 1))) (ex_fixed i)"
      by (simp add: continues_def ex_fit_def ex_fixed_def dsub_def)
    have p: "em_pass ex_P (ex_fit 0 (Fin (- 1))) ex_obs (ex_fixed i) = ex_fixed (i + 1)"
      by (simp add: ex_fixed_def ex_pass)
    have "unat (0 - (i + 1)) < unat (0 - i)"
      using counter_distance [OF False] by linarith
    then have "em_loop ex_P (ex_fit 0 (Fin (- 1))) ex_obs (ex_fixed (i + 1)) = ex_fixed 0"
      by (rule less.hyps)
    then show ?thesis
      using em_loop_step [OF c, of ex_P ex_obs] p by simp
  qed
qed

text \<open>
  With \<open>maxIterations = 0\<close> and a negative tolerance the convergence test never fails, and
  the loop still ends: the counter has wrapped around to 0.
\<close>

theorem iteration_cap_counterexample:
  "maxIterations (ex_fit 0 (Fin (- 1))) = 0 \<and>
   s_iteration (em_loop ex_P (ex_fit 0 (Fin (- 1))) ex_obs
     (initial_state ex_P ex_obs ex_dists [Fin 1])) = 0 \<and>
   dgt (dabs (dsub
       (s_l (em_loop ex_P (ex_fit 0 (Fin (- 1))) ex_obs
          (initial_state ex_P ex_obs ex_dists [Fin 1])))
       (s_lOld (em_loop ex_P (ex_fit 0 (Fin (- 1))) ex_obs
          (initial_state ex_P ex_obs ex_dists [Fin 1])))))
     (tolerance (ex_fit 0 (Fin (- 1))))"
proof -
  let ?fit = "ex_fit 0 (Fin (- 1))"
  let ?s0 = "initial_state ex_P ex_obs ex_dists [Fin 1]"
  have c: "continues ?fit ?s0"
    using DBL_MAX_pos by (simp add: continues_def ex_initial_state ex_fit_def dsub_def)
  have p: "em_pass ex_P ?fit ex_obs ?s0 = ex_fixed 2"
    unfolding ex_initial_state by (simp add: ex_dists_def ex_pass ex_fixed_def)
  have "em_loop ex_P ?fit ex_obs ?s0 = em_loop ex_P ?fit ex_obs (ex_fixed 2)"
    using em_loop_step [OF c, of ex_P ex_obs] p by simp
  then have "em_loop ex_P ?fit ex_obs ?s0 = ex_fixed 0"
    by (simp add: ex_loop_wraps)
  then show ?thesis
    by (simp add: ex_fixed_def ex_fit_def dsub_def)
qed

theorem iteration_cap_witness:
  "maxIterations (ex_fit 3 (Fin 0)) \<noteq> 0 \<and>
   unat (maxIterations (ex_fit 3 (Fin 0)) - 1) = 2 \<and>
   (\<exists>n\<le>2.
      executes (em_pass ex_P (ex_fit 3 (Fin 0)) ex_obs) (ex_fit 3 (Fin 0))
        (initial_state ex_P ex_obs ex_dists [Fin 1]) n \<and>
      em_loop ex_P (ex_fit 3 (Fin 0)) ex_obs (initial_state ex_P ex_obs ex_dists [Fin 1]) =
        (em_pass ex_P (ex_fit 3 (Fin 0)) ex_obs ^^ n)
          (initial_state ex_P ex_obs ex_dists [Fin 1])) \<and>
   maxIterations (ex_fit 1 (Fin 0)) = 1 \<and>
   em_loop ex_P (ex_fit 1 (Fin 0)) ex_obs (initial_state ex_P ex_obs ex_dists [Fin 1]) =
     initial_state ex_P ex_obs ex_dists [Fin 1] \<and>
   em_loop_weighted ex_P (ex_fit 1 (Fin 0)) ex_obs [Fin 1, Fin 1]
       (initial_state ex_P ex_obs ex_dists [Fin 1]) =
     initial_state ex_P ex_obs ex_dists [Fin 1] \<and>
   maxIterations (ex_fit 0 (Fin 0)) = 0 \<and>
   (4 :: nat) < 2 ^ 64 - 1 \<and>
   s_iteration ((em_pass ex_P (ex_fit 0 (Fin 0)) ex_obs ^^ 4)
     (initial_state ex_P ex_obs ex_dists [Fin 1])) \<noteq> maxIterations (ex_fit 0 (Fin 0))"
proof -
  note a = iteration_cap [of "ex_fit 3 (Fin 0)" ex_P ex_obs ex_dists "[Fin 1]" "[Fin 1, Fin 1]"]
  note b = iteration_cap [of "ex_fit 1 (Fin 0)" ex_P ex_obs ex_dists "[Fin 1]" "[Fin 1, Fin 1]"]
  note c = iteration_cap [of "ex_fit 0 (Fin 0)" ex_P ex_obs ex_dists "[Fin 1]" "[Fin 1, Fin 1]"]
  have m3: "maxIterations (ex_fit 3 (Fin 0)) \<noteq> 0" by (simp add: ex_fit_def)
  have m1: "maxIterations (ex_fit 1 (Fin 0)) = 1" by (simp add: ex_fit_def)
  have m0: "maxIterations (ex_fit 0 (Fin 0)) = 0" by (simp add: ex_fit_def)
  have u: "unat (maxIterations (ex_fit 3 (Fin 0)) - 1) = 2" by (simp add: ex_fit_def)
  have k: "(4 :: nat) < 2 ^ 64 - 1" by simp
  have 1: "\<exists>n\<le>2.
      executes (em_pass ex_P (ex_fit 3 (Fin 0)) ex_obs) (ex_fit 3 (Fin 0))
        (initial_state ex_P ex_obs ex_dists [Fin 1]) n \<and>
      em_loop ex_P (ex_fit 3 (Fin 0)) ex_obs (initial_state ex_P ex_obs ex_dists [Fin 1]) =
        (em_pass ex_P (ex_fit 3 (Fin 0)) ex_obs ^^ n)
          (initial_state ex_P ex_obs ex_dists [Fin 1])"
    using a unfolding u by blast
  have 2: "em_loop ex_P (ex_fit 1 (Fin 0)) ex_obs (initial_state ex_P ex_obs ex_dists [Fin 1]) =
     initial_state ex_P ex_obs ex_dists [Fin 1]"
    using b m1 by blast
  have 3: "em_loop_weighted ex_P (ex_fit 1 (Fin 0)) ex_obs [Fin 1, Fin 1]
       (initial_state ex_P ex_obs ex_dists [Fin 1]) =
     initial_state ex_P ex_obs ex_dists [Fin 1]"
    using b m1 by blast
  have 4: "s_iteration ((em_pass ex_P (ex_fit 0 (Fin 0)) ex_obs ^^ 4)
     (initial_state ex_P ex_obs ex_dists [Fin 1])) \<noteq> maxIterations (ex_fit 0 (Fin 0))"
    using c m0 k by blast
  show ?thesis using m3 u 1 m1 2 3 m0 k 4 by blast
qed

section \<open>Dispatch to the diagonal learner\<close>

lemma continues_cong:
  "tolerance fit' = tolerance fit \<Longrightarrow> maxIterations fit' = maxIterations fit \<Longrightarrow>
     continues fit' s = continues fit s"
  by (simp add: continues_def)

lemma em_pass_cong:
  assumes "constraint fit' = constraint fit"
  shows "em_pass P fit' observations s = em_pass P fit observations s"
  unfolding em_pass_def update_dist_def assms ..

lemma em_pass_weighted_cong:
  assumes "constraint fit' = constraint fit"
  shows "em_pass_weighted P fit' observations probabilities s =
           em_pass_weighted P fit observations probabilities s"
  unfolding em_pass_weighted_def update_dist_weighted_def assms ..

lemma InitialClustering_cong:
  assumes "constraint fit' = constraint fit" and "clusterer fit' = clusterer fit"
  shows "InitialClustering fit' observations dists weights =
           InitialClustering fit observations dists weights"
  unfolding InitialClustering_def assms ..

lemma em_loop_weighted_cong:
  assumes "constraint fit' = constraint fit" and "tolerance fit' = tolerance fit"
    and "maxIterations fit' = maxIterations fit"
  shows "em_loop_weighted P fit' observations probabilities s =
           em_loop_weighted P fit observations probabilities s"
  using assms
proof (induction P fit observations probabilities s rule: em_loop_weighted.induct)
  case (1 P fit observations probabilities s)
  have c: "continues fit' s = continues fit s"
    using "1.prems"(2,3) by (rule continues_cong)
  have p: "em_pass_weighted P fit' observations probabilities s =
             em_pass_weighted P fit observations probabilities s"
    using "1.prems"(1) by (rule em_pass_weighted_cong)
  show ?case
  proof (cases "continues fit s")
    case True
    have "em_loop_weighted P fit' observations probabilities s =
            em_loop_weighted P fit' observations probabilities
              (em_pass_weighted P fit observations probabilities s)"
      using True c p em_loop_weighted_step [of fit' s P observations probabilities] by simp
    also have "\<dots> = em_loop_weighted P fit observations probabilities
              (em_pass_weighted P fit observations probabilities s)"
      using True "1.prems" by (rule "1.IH")
    also have "\<dots> = em_loop_weighted P fit observations probabilities s"
      using True by (rule em_loop_weighted_step [symmetric])
    finally show ?thesis .
  next
    case False
    then show ?thesis using c by (simp add: em_loop_weighted_stop)
  qed
qed

lemma seed_model_initial [simp]:
  "seed_model fit observations dists weights True = (dists, weights)"
  by (simp add: seed_model_def)

lemma length_InitialClustering:
  "length (fst (InitialClustering fit observations dists weights)) = length dists"
  by (simp add: InitialClustering_def Let_def split: prod.splits)

lemma Estimate_weighted_loop:
  "Estimate_weighted P fit observations probabilities dists weights useInitialModel =
     (if continues fit (initial_state P observations
            (fst (seed_model fit observations dists weights useInitialModel))
            (snd (seed_model fit observations dists weights useInitialModel))) \<and>
         fst (seed_model fit observations dists weights useInitialModel) \<noteq> [] \<and>
         length probabilities \<noteq> n_cols observations
      then Inl size_mismatch
      else Inr (s_dists (em_loop_weighted P fit observations probabilities
                  (initial_state P observations
                     (fst (seed_model fit observations dists weights useInitialModel))
                     (snd (seed_model fit observations dists weights useInitialModel)))),
                s_weights (em_loop_weighted P fit observations probabilities
                  (initial_state P observations
                     (fst (seed_model fit observations dists weights useInitialModel))
                     (snd (seed_model fit observations dists weights useInitialModel))))))"
  by (simp add: Estimate_weighted_def seed_model_def Let_def split: prod.splits)

lemma continues_initial_state:
  "continues fit (initial_state P observations dists weights) =
     (dgt (dabs (dsub (LogLikelihood P observations dists weights) (Fin (- DBL_MAX))))
        (tolerance fit) \<and> maxIterations fit \<noteq> 1)"
  by (auto simp: continues_def initial_state_def)

lemma em_loop_weighted_stopped:
  "\<not> continues fit (em_loop_weighted P fit observations probabilities s)"
  using em_loop_weighted_executes [of fit s P observations probabilities]
  by (auto simp: executes_def)

lemma em_loop_stopped: "\<not> continues fit (em_loop P fit observations s)"
  using em_loop_executes [of fit s P observations] by (auto simp: executes_def)

lemma s_lOld_em_pass_weighted [simp]:
  "s_lOld (em_pass_weighted P fit observations probabilities s) = s_l s"
  by (simp add: em_pass_weighted_def Let_def)

lemma s_weights_em_pass_weighted:
  "s_weights (em_pass_weighted P fit observations probabilities s) =
     vec_div (map (\<lambda>i. accu (schur (E_step P observations (s_dists s) (s_weights s) ! i)
                               probabilities)) [0..<length (s_dists s)])
       (accu probabilities)"
  by (simp add: em_pass_weighted_def Let_def)

lemma s_dists_em_pass_weighted:
  "s_dists (em_pass_weighted P fit observations probabilities s) =
     map (\<lambda>i. update_dist_weighted fit observations
                (schur (E_step P observations (s_dists s) (s_weights s) ! i) probabilities)
                (accu (schur (E_step P observations (s_dists s) (s_weights s) ! i)
                   probabilities))
                (s_dists s ! i)) [0..<length (s_dists s)]"
  by (simp add: em_pass_weighted_def Let_def cong: map_cong)


lemma start_state_sel [simp]:
  "s_dists (start_state P fit observations dists weights useInitialModel) =
     fst (seed_model fit observations dists weights useInitialModel)"
  "s_weights (start_state P fit observations dists weights useInitialModel) =
     snd (seed_model fit observations dists weights useInitialModel)"
  "s_iteration (start_state P fit observations dists weights useInitialModel) = 1"
  "s_lOld (start_state P fit observations dists weights useInitialModel) = Fin (- DBL_MAX)"
  by (simp_all add: start_state_def initial_state_def)

lemma seed_model_cong:
  assumes "constraint fit' = constraint fit" and "clusterer fit' = clusterer fit"
  shows "seed_model fit' observations dists weights useInitialModel =
           seed_model fit observations dists weights useInitialModel"
  unfolding seed_model_def InitialClustering_cong [OF assms] ..

lemma Estimate_weighted_start:
  "Estimate_weighted P fit observations probabilities dists weights useInitialModel =
     (if continues fit (start_state P fit observations dists weights useInitialModel) \<and>
         s_dists (start_state P fit observations dists weights useInitialModel) \<noteq> [] \<and>
         length probabilities \<noteq> n_cols observations
      then Inl size_mismatch
      else Inr (s_dists (em_loop_weighted P fit observations probabilities
                  (start_state P fit observations dists weights useInitialModel)),
                s_weights (em_loop_weighted P fit observations probabilities
                  (start_state P fit observations dists weights useInitialModel))))"
  by (simp only: Estimate_weighted_loop start_state_def initial_state_sel)

lemma ex_pass_weighted:
  "em_pass_weighted ex_P (ex_fit m tol) ex_obs [Fin 1, Fin 1]
     \<lparr>s_dists = [\<lparr>Mean = [Fin a], Covariance = C\<rparr>], s_weights = [Fin 1], s_l = x,
      s_lOld = y, s_iteration = i\<rparr> =
   \<lparr>s_dists = [\<lparr>Mean = [Fin 1], Covariance = \<lparr>n_rows = 1, cols = [[Fin 1]]\<rparr>\<rparr>],
    s_weights = [Fin 1], s_l = Fin 0, s_lOld = x, s_iteration = i + 1\<rparr>"
  by (simp add: ex_eval em_pass_weighted_def schur_def update_dist_weighted_def)

lemma ex_start_state:
  "start_state ex_P fit ex_obs ex_dists [Fin 1] True =
     \<lparr>s_dists = ex_dists, s_weights = [Fin 1], s_l = Fin 0, s_lOld = Fin (- DBL_MAX),
      s_iteration = 1\<rparr>"
  by (simp add: start_state_def ex_initial_state)

text \<open>
  Claim C9.  The weighted overload has no dispatch: its result is the same whatever the policy
  test, the clusterer test and the build say, also under the diagonal policy.  It runs the
  generic loop under the configured tolerance: where the first likelihood is within the
  tolerance of \<open>-DBL_MAX\<close>, or the cap is 1, it returns the model it starts with; otherwise
  it raises the size error of \<open>%\<close>, or it executes an E/M pass, which sets the mixing
  weights to the weighted Effective Masses over the sum of the point weights, updates every
  component from its weighted responsibility column, evaluates the likelihood anew and counts
  the pass, and goes on until the loop test fails.
\<close>

theorem weighted_runs_generic_loop:
  "(let s0 = start_state P fit observations dists weights useInitialModel;
        s1 = em_pass_weighted P fit observations probabilities s0;
        sf = em_loop_weighted P fit observations probabilities s1;
        result = Estimate_weighted P fit observations probabilities dists weights
                   useInitialModel
    in Estimate_weighted P
         (fit\<lparr>policy_is_DiagonalConstraint := b, clusterer_is_KMeans := c, WIN32 := w\<rparr>)
         observations probabilities dists weights useInitialModel = result \<and>
       (\<not> dgt (dabs (dsub (s_l s0) (s_lOld s0))) (tolerance fit) \<or> maxIterations fit = 1 \<longrightarrow>
          result = Inr (s_dists s0, s_weights s0)) \<and>
       (dgt (dabs (dsub (s_l s0) (s_lOld s0))) (tolerance fit) \<and> maxIterations fit \<noteq> 1 \<longrightarrow>
          (s_dists s0 \<noteq> [] \<and> length probabilities \<noteq> n_cols observations \<longrightarrow>
             result = Inl size_mismatch) \<and>
          (s_dists s0 = [] \<or> length probabilities = n_cols observations \<longrightarrow>
             result = Inr (s_dists sf, s_weights sf) \<and>
             \<not> continues fit sf \<and>
             s_weights s1 =
               vec_div (map (\<lambda>i. accu (schur (E_step P observations (s_dists s0)
                                               (s_weights s0) ! i) probabilities))
                          [0..<length (s_dists s0)])
                 (accu probabilities) \<and>
             s_dists s1 =
               map (\<lambda>i. update_dist_weighted fit observations
                          (schur (E_step P observations (s_dists s0) (s_weights s0) ! i)
                             probabilities)
                          (accu (schur (E_step P observations (s_dists s0) (s_weights s0) ! i)
                             probabilities))
                          (s_dists s0 ! i)) [0..<length (s_dists s0)] \<and>
             s_l s1 = LogLikelihood P observations (s_dists s1) (s_weights s1) \<and>
             s_lOld s1 = s_l s0 \<and> s_iteration s1 = 2)))"
proof -
  let ?s0 = "start_state P fit observations dists weights useInitialModel"
  let ?s1 = "em_pass_weighted P fit observations probabilities ?s0"
  let ?sf = "em_loop_weighted P fit observations probabilities ?s1"
  let ?fit' = "fit\<lparr>policy_is_DiagonalConstraint := b, clusterer_is_KMeans := c, WIN32 := w\<rparr>"
  let ?conv = "dgt (dabs (dsub (s_l ?s0) (s_lOld ?s0))) (tolerance fit)"
  note R = Estimate_weighted_start
  have c: "continues fit ?s0 = (?conv \<and> maxIterations fit \<noteq> 1)"
    by (auto simp: continues_def)
  have seed: "seed_model ?fit' observations dists weights useInitialModel =
                seed_model fit observations dists weights useInitialModel"
    by (rule seed_model_cong) simp_all
  have s0: "start_state P ?fit' observations dists weights useInitialModel = ?s0"
    unfolding start_state_def seed ..
  have c': "continues ?fit' s = continues fit s" for s
    by (rule continues_cong) simp_all
  have l': "em_loop_weighted P ?fit' observations probabilities s =
              em_loop_weighted P fit observations probabilities s" for s
    by (rule em_loop_weighted_cong) simp_all
  have 1: "Estimate_weighted P ?fit' observations probabilities dists weights useInitialModel =
             Estimate_weighted P fit observations probabilities dists weights useInitialModel"
    unfolding R s0 c' l' ..
  have 2: "Estimate_weighted P fit observations probabilities dists weights useInitialModel =
             Inr (s_dists ?s0, s_weights ?s0)"
    if "\<not> ?conv \<or> maxIterations fit = 1"
  proof -
    have n: "\<not> continues fit ?s0" using that c by blast
    show ?thesis unfolding R using n by (simp add: em_loop_weighted_stop)
  qed
  have 3: "Estimate_weighted P fit observations probabilities dists weights useInitialModel =
             Inl size_mismatch"
    if "?conv \<and> maxIterations fit \<noteq> 1"
      and "s_dists ?s0 \<noteq> [] \<and> length probabilities \<noteq> n_cols observations"
    unfolding R using that c by simp
  have 4: "Estimate_weighted P fit observations probabilities dists weights useInitialModel =
             Inr (s_dists ?sf, s_weights ?sf)"
    if "?conv \<and> maxIterations fit \<noteq> 1"
      and "s_dists ?s0 = [] \<or> length probabilities = n_cols observations"
  proof -
    have y: "continues fit ?s0" using that(1) c by blast
    have "em_loop_weighted P fit observations probabilities ?s0 = ?sf"
      using y by (rule em_loop_weighted_step)
    then show ?thesis unfolding R using that(2) by auto
  qed
  have 5: "\<not> continues fit ?sf"
    by (rule em_loop_weighted_stopped)
  have 6: "s_weights ?s1 =
               vec_div (map (\<lambda>i. accu (schur (E_step P observations (s_dists ?s0)
                                               (s_weights ?s0) ! i) probabilities))
                          [0..<length (s_dists ?s0)])
                 (accu probabilities)"
    by (rule s_weights_em_pass_weighted)
  have 7: "s_dists ?s1 =
               map (\<lambda>i. update_dist_weighted fit observations
                          (schur (E_step P observations (s_dists ?s0) (s_weights ?s0) ! i)
                             probabilities)
                          (accu (schur (E_step P observations (s_dists ?s0) (s_weights ?s0) ! i)
                             probabilities))
                          (s_dists ?s0 ! i)) [0..<length (s_dists ?s0)]"
    by (rule s_dists_em_pass_weighted)
  have 8: "s_l ?s1 = LogLikelihood P observations (s_dists ?s1) (s_weights ?s1)"
    by (simp add: em_pass_weighted_def Let_def)
  have 9: "s_lOld ?s1 = s_l ?s0" "s_iteration ?s1 = 2"
    by simp_all
  show ?thesis
    unfolding Let_def using 1 2 3 4 5 6 7 8 9 by blast
qed

theorem weighted_runs_generic_loop_witness:
  "Estimate_weighted ex_P ((ex_fit 2 (Fin 0))\<lparr>policy_is_DiagonalConstraint := True\<rparr>)
       ex_obs [Fin 1, Fin 1] ex_dists [Fin 1] True =
     Inr ([\<lparr>Mean = [Fin 1], Covariance = \<lparr>n_rows = 1, cols = [[Fin 1]]\<rparr>\<rparr>], [Fin 1]) \<and>
   Estimate_weighted ex_P ((ex_fit 2 (Fin DBL_MAX))\<lparr>policy_is_DiagonalConstraint := True\<rparr>)
       ex_obs [Fin 1, Fin 1] ex_dists [Fin 1] True =
     Inr (ex_dists, [Fin 1]) \<and>
   Estimate_weighted ex_P ((ex_fit 2 (Fin 0))\<lparr>policy_is_DiagonalConstraint := True\<rparr>)
       ex_obs [Fin 1] ex_dists [Fin 1] True =
     Inl size_mismatch"
proof -
  let ?F = "ex_fit 2 (Fin 0)" and ?G = "ex_fit 2 (Fin DBL_MAX)"
  let ?s0 = "\<lparr>s_dists = ex_dists, s_weights = [Fin 1], s_l = Fin 0, s_lOld = Fin (- DBL_MAX),
               s_iteration = 1\<rparr>"
  let ?s1 = "\<lparr>s_dists = [\<lparr>Mean = [Fin 1], Covariance = \<lparr>n_rows = 1, cols = [[Fin 1]]\<rparr>\<rparr>],
               s_weights = [Fin 1], s_l = Fin 0, s_lOld = Fin 0, s_iteration = 2\<rparr>"
  note a = weighted_runs_generic_loop
    [where P = ex_P and fit = ?F and observations = ex_obs and probabilities = "[Fin 1, Fin 1]"
       and dists = ex_dists and weights = "[Fin 1]" and useInitialModel = True
       and b = True and c = False and w = False, unfolded Let_def ex_start_state]
  note b = weighted_runs_generic_loop
    [where P = ex_P and fit = ?G and observations = ex_obs and probabilities = "[Fin 1, Fin 1]"
       and dists = ex_dists and weights = "[Fin 1]" and useInitialModel = True
       and b = True and c = False and w = False, unfolded Let_def ex_start_state]
  note c = weighted_runs_generic_loop
    [where P = ex_P and fit = ?F and observations = ex_obs and probabilities = "[Fin 1]"
       and dists = ex_dists and weights = "[Fin 1]" and useInitialModel = True
       and b = True and c = False and w = False, unfolded Let_def ex_start_state]
  have F': "?F\<lparr>policy_is_DiagonalConstraint := True, clusterer_is_KMeans := False,
               WIN32 := False\<rparr> = ?F\<lparr>policy_is_DiagonalConstraint := True\<rparr>"
    by (simp add: ex_fit_def)
  have G': "?G\<lparr>policy_is_DiagonalConstraint := True, clusterer_is_KMeans := False,
               WIN32 := False\<rparr> = ?G\<lparr>policy_is_DiagonalConstraint := True\<rparr>"
    by (simp add: ex_fit_def)
  have runs: "dgt (dabs (dsub (s_l ?s0) (s_lOld ?s0))) (tolerance ?F) \<and> maxIterations ?F \<noteq> 1"
    using DBL_MAX_pos by (simp add: ex_fit_def dsub_def)
  have stops: "\<not> dgt (dabs (dsub (s_l ?s0) (s_lOld ?s0))) (tolerance ?G) \<or> maxIterations ?G = 1"
    using DBL_MAX_pos by (simp add: ex_fit_def dsub_def)
  have sizes: "s_dists ?s0 = [] \<or> length [Fin 1, Fin 1 :: dbl] = n_cols ex_obs"
    by (simp add: n_cols_def ex_obs_def)
  have wrong: "s_dists ?s0 \<noteq> [] \<and> length [Fin 1 :: dbl] \<noteq> n_cols ex_obs"
    by (simp add: n_cols_def ex_obs_def ex_dists_def)
  have p: "em_pass_weighted ex_P ?F ex_obs [Fin 1, Fin 1] ?s0 = ?s1"
    by (simp add: ex_dists_def ex_pass_weighted)
  have "\<not> continues ?F ?s1"
    by (simp add: continues_def ex_fit_def)
  then have l: "em_loop_weighted ex_P ?F ex_obs [Fin 1, Fin 1] ?s1 = ?s1"
    by (rule em_loop_weighted_stop)
  have 1: "Estimate_weighted ex_P ?F ex_obs [Fin 1, Fin 1] ex_dists [Fin 1] True =
             Inr (s_dists ?s1, s_weights ?s1)"
    using a runs sizes unfolding p l by blast
  have 2: "Estimate_weighted ex_P ?G ex_obs [Fin 1, Fin 1] ex_dists [Fin 1] True =
             Inr (s_dists ?s0, s_weights ?s0)"
    using b stops by blast
  have 3: "Estimate_weighted ex_P ?F ex_obs [Fin 1] ex_dists [Fin 1] True = Inl size_mismatch"
    using c runs wrong by blast
  have r1: "Estimate_weighted ex_P (?F\<lparr>policy_is_DiagonalConstraint := True\<rparr>) ex_obs
              [Fin 1, Fin 1] ex_dists [Fin 1] True = Inr (s_dists ?s1, s_weights ?s1)"
    using a 1 unfolding F' by simp
  have r2: "Estimate_weighted ex_P (?G\<lparr>policy_is_DiagonalConstraint := True\<rparr>) ex_obs
              [Fin 1, Fin 1] ex_dists [Fin 1] True = Inr (s_dists ?s0, s_weights ?s0)"
    using b 2 unfolding G' by simp
  have r3: "Estimate_weighted ex_P (?F\<lparr>policy_is_DiagonalConstraint := True\<rparr>) ex_obs
              [Fin 1] ex_dists [Fin 1] True = Inl size_mismatch"
    using c 3 unfolding F' by simp
  show ?thesis using r1 r2 r3 by simp
qed

lemma learn_call_tolerance:
  "learn_call (fit\<lparr>tolerance := t\<rparr>) observations dists weights useInitialModel =
     learn_call fit observations dists weights useInitialModel"
proof -
  have i: "InitialClustering (fit\<lparr>tolerance := t\<rparr>) observations dists weights =
             InitialClustering fit observations dists weights"
    by (rule InitialClustering_cong) simp_all
  show ?thesis
    unfolding learn_call_def i by simp
qed

lemma learn_call_args:
  "arg_var_floor (snd (learn_call fit observations dists weights useInitialModel)) = lit_1e_10"
  "arg_em_iter (snd (learn_call fit observations dists weights useInitialModel)) =
     maxIterations fit"
  by (simp_all add: learn_call_def Let_def split: prod.splits)

text \<open>
  Claim C7, as amended.  On a build that does not define \<open>_WIN32\<close>, with the diagonal
  policy the unweighted overload returns what \<open>ArmadilloGMMWrapper\<close> makes of the state in
  which the one call of \<open>learn\<close> leaves \<open>g\<close>: the generic loop is not run and the density of
  the components is not evaluated.  The call gives the learner \<open>maxIterations\<close> as its number
  of EM iterations and the literal \<open>1e-10\<close> as its variance floor; neither the arguments of the
  call nor the state of \<open>g\<close> before it depend on the configured tolerance, and so the result
  does not.
\<close>

theorem diagonal_shortcut:
  assumes "\<not> WIN32 fit" and "policy_is_DiagonalConstraint fit"
  shows "Estimate P learn fit observations dists weights useInitialModel =
           ArmadilloGMMWrapper learn fit observations dists weights useInitialModel \<and>
         Estimate P learn fit observations dists weights useInitialModel =
           (map (\<lambda>i. \<lparr>Mean = cols (means (learn
                          (fst (learn_call fit observations dists weights useInitialModel))
                          (snd (learn_call fit observations dists weights useInitialModel)))) ! i,
                      Covariance = diagmat (cols (dcovs (learn
                          (fst (learn_call fit observations dists weights useInitialModel))
                          (snd (learn_call fit observations dists weights useInitialModel)))) ! i)\<rparr>)
              [0..<length dists],
            hefts (learn (fst (learn_call fit observations dists weights useInitialModel))
                     (snd (learn_call fit observations dists weights useInitialModel)))) \<and>
         Estimate P' learn fit observations dists weights useInitialModel =
           Estimate P learn fit observations dists weights useInitialModel \<and>
         arg_em_iter (snd (learn_call fit observations dists weights useInitialModel)) =
           maxIterations fit \<and>
         arg_var_floor (snd (learn_call fit observations dists weights useInitialModel)) =
           lit_1e_10 \<and>
         learn_call (fit\<lparr>tolerance := t\<rparr>) observations dists weights useInitialModel =
           learn_call fit observations dists weights useInitialModel \<and>
         Estimate P learn (fit\<lparr>tolerance := t\<rparr>) observations dists weights useInitialModel =
           Estimate P learn fit observations dists weights useInitialModel"
proof (intro conjI)
  show "Estimate P learn fit observations dists weights useInitialModel =
           ArmadilloGMMWrapper learn fit observations dists weights useInitialModel"
    using assms by (simp add: Estimate_def)
next
  show "Estimate P learn fit observations dists weights useInitialModel =
           (map (\<lambda>i. \<lparr>Mean = cols (means (learn
                          (fst (learn_call fit observations dists weights useInitialModel))
                          (snd (learn_call fit observations dists weights useInitialModel)))) ! i,
                      Covariance = diagmat (cols (dcovs (learn
                          (fst (learn_call fit observations dists weights useInitialModel))
                          (snd (learn_call fit observations dists weights useInitialModel)))) ! i)\<rparr>)
              [0..<length dists],
            hefts (learn (fst (learn_call fit observations dists weights useInitialModel))
                     (snd (learn_call fit observations dists weights useInitialModel))))"
    using assms
    by (simp add: Estimate_def ArmadilloGMMWrapper_def learned_def Let_def split_beta)
next
  show "Estimate P' learn fit observations dists weights useInitialModel =
           Estimate P learn fit observations dists weights useInitialModel"
    using assms by (simp add: Estimate_def)
next
  show "arg_em_iter (snd (learn_call fit observations dists weights useInitialModel)) =
           maxIterations fit"
    by (rule learn_call_args)
next
  show "arg_var_floor (snd (learn_call fit observations dists weights useInitialModel)) =
           lit_1e_10"
    by (rule learn_call_args)
next
  show "learn_call (fit\<lparr>tolerance := t\<rparr>) observations dists weights useInitialModel =
           learn_call fit observations dists weights useInitialModel"
    by (rule learn_call_tolerance)
next
  show "Estimate P learn (fit\<lparr>tolerance := t\<rparr>) observations dists weights useInitialModel =
           Estimate P learn fit observations dists weights useInitialModel"
    using assms
    by (simp add: Estimate_def ArmadilloGMMWrapper_def learned_def learn_call_tolerance)
qed


theorem diagonal_shortcut_witness:
  "\<not> WIN32 ((ex_fit 3 (Fin 0))\<lparr>policy_is_DiagonalConstraint := True\<rparr>) \<and>
   policy_is_DiagonalConstraint ((ex_fit 3 (Fin 0))\<lparr>policy_is_DiagonalConstraint := True\<rparr>) \<and>
   Estimate ex_P ex_learn_floor ((ex_fit 3 (Fin 0))\<lparr>policy_is_DiagonalConstraint := True\<rparr>)
       ex_obs ex_point_dists [Fin 1] True =
     ([\<lparr>Mean = [Fin 0], Covariance = \<lparr>n_rows = 1, cols = [[lit_1e_10]]\<rparr>\<rparr>], [Fin 1]) \<and>
   Estimate ex_P ex_learn_floor
       ((ex_fit 3 (Fin 0))\<lparr>policy_is_DiagonalConstraint := True, tolerance := Fin 5\<rparr>)
       ex_obs ex_point_dists [Fin 1] True =
     ([\<lparr>Mean = [Fin 0], Covariance = \<lparr>n_rows = 1, cols = [[lit_1e_10]]\<rparr>\<rparr>], [Fin 1]) \<and>
   Estimate ex_P_outlier ex_learn_floor
       ((ex_fit 3 (Fin 0))\<lparr>policy_is_DiagonalConstraint := True\<rparr>)
       ex_obs ex_point_dists [Fin 1] True =
     ([\<lparr>Mean = [Fin 0], Covariance = \<lparr>n_rows = 1, cols = [[lit_1e_10]]\<rparr>\<rparr>], [Fin 1])"
proof -
  let ?fit = "(ex_fit 3 (Fin 0))\<lparr>policy_is_DiagonalConstraint := True\<rparr>"
  let ?r = "([\<lparr>Mean = [Fin 0], Covariance = \<lparr>n_rows = 1, cols = [[lit_1e_10]]\<rparr>\<rparr>], [Fin 1])"
  have w: "\<not> WIN32 ?fit" by (simp add: ex_fit_def)
  have d: "policy_is_DiagonalConstraint ?fit" by simp
  note t = diagonal_shortcut
    [OF w d, where P = ex_P and P' = ex_P_outlier and learn = ex_learn_floor
       and observations = ex_obs and dists = ex_point_dists and weights = "[Fin 1]"
       and useInitialModel = True and t = "Fin 5"]
  have c: "learn_call ?fit ex_obs ex_point_dists [Fin 1] True =
             (\<lparr>hefts = [Fin 1], means = \<lparr>n_rows = 1, cols = [[Fin 0]]\<rparr>,
               dcovs = \<lparr>n_rows = 1, cols = [[Fin 0]]\<rparr>\<rparr>,
              \<lparr>arg_data = ex_obs, arg_n_gaus = 1, arg_dist_mode = eucl_dist,
               arg_seed_mode = keep_existing, arg_km_iter = 0, arg_em_iter = 3,
               arg_var_floor = lit_1e_10, arg_print_mode = False\<rparr>)"
    by (simp add: learn_call_def ex_point_dists_def ex_obs_def ex_fit_def diag_def)
  have l: "length ex_point_dists = 1" by (simp add: ex_point_dists_def)
  have f: "dgt lit_1e_10 (Fin 0)" by (simp add: lit_1e_10_def)
  have r: "Estimate ex_P ex_learn_floor ?fit ex_obs ex_point_dists [Fin 1] True = ?r"
    unfolding t [THEN conjunct2, THEN conjunct1] c l
    using f by (simp add: ex_learn_floor_def diagmat_def)
  have r5: "Estimate ex_P ex_learn_floor (?fit\<lparr>tolerance := Fin 5\<rparr>) ex_obs ex_point_dists
              [Fin 1] True = ?r"
    using t r by simp
  have ro: "Estimate ex_P_outlier ex_learn_floor ?fit ex_obs ex_point_dists [Fin 1] True = ?r"
    using t r by simp
  show ?thesis using w d r r5 ro by simp
qed

text \<open>
  On a build that defines \<open>_WIN32\<close> the diagonal policy takes the generic loop, and the
  configured tolerance decides the result: with tolerance \<open>DBL_MAX\<close> the loop does not run,
  with tolerance 0 it runs one pass and moves the mean.  On a build that does not define it,
  the literal \<open>1e-10\<close> reaches the learner as the seventh argument of \<open>learn\<close>, its variance
  floor, next to the iteration cap; the call has no argument for a convergence threshold.
\<close>

theorem diagonal_shortcut_counterexample:
  "WIN32 ((ex_fit 2 (Fin DBL_MAX))\<lparr>policy_is_DiagonalConstraint := True, WIN32 := True\<rparr>) \<and>
   policy_is_DiagonalConstraint
     ((ex_fit 2 (Fin DBL_MAX))\<lparr>policy_is_DiagonalConstraint := True, WIN32 := True\<rparr>) \<and>
   Estimate ex_P ex_learn
       ((ex_fit 2 (Fin DBL_MAX))\<lparr>policy_is_DiagonalConstraint := True, WIN32 := True\<rparr>)
       ex_obs ex_dists [Fin 1] True \<noteq>
     Estimate ex_P ex_learn
       ((ex_fit 2 (Fin DBL_MAX))
          \<lparr>policy_is_DiagonalConstraint := True, WIN32 := True, tolerance := Fin 0\<rparr>)
       ex_obs ex_dists [Fin 1] True \<and>
   \<not> WIN32 ((ex_fit 2 (Fin DBL_MAX))\<lparr>policy_is_DiagonalConstraint := True\<rparr>) \<and>
   snd (learn_call ((ex_fit 2 (Fin DBL_MAX))\<lparr>policy_is_DiagonalConstraint := True\<rparr>)
          ex_obs ex_dists [Fin 1] True) =
     \<lparr>arg_data = ex_obs, arg_n_gaus = 1, arg_dist_mode = eucl_dist,
      arg_seed_mode = keep_existing, arg_km_iter = 0, arg_em_iter = 2,
      arg_var_floor = lit_1e_10, arg_print_mode = False\<rparr>"
proof -
  let ?A = "(ex_fit 2 (Fin DBL_MAX))\<lparr>policy_is_DiagonalConstraint := True, WIN32 := True\<rparr>"
  let ?B = "?A\<lparr>tolerance := Fin 0\<rparr>"
  let ?s0 = "initial_state ex_P ex_obs ex_dists [Fin 1]"
  have a: "\<not> continues ?A ?s0"
    using DBL_MAX_pos by (simp add: continues_def ex_initial_state ex_fit_def dsub_def)
  have ea: "em_loop ex_P ?A ex_obs ?s0 = ?s0"
    using a by (rule em_loop_stop)
  have b: "continues ?B ?s0"
    using DBL_MAX_pos by (simp add: continues_def ex_initial_state ex_fit_def dsub_def)
  have pc: "\<And>s. em_pass ex_P ?B ex_obs s = em_pass ex_P (ex_fit 2 (Fin 0)) ex_obs s"
    by (rule em_pass_cong) (simp add: ex_fit_def)
  have p: "em_pass ex_P ?B ex_obs ?s0 = ex_fixed 2"
    unfolding pc ex_initial_state by (simp add: ex_dists_def ex_pass ex_fixed_def)
  have c: "\<not> continues ?B (ex_fixed 2)"
    by (simp add: continues_def ex_fixed_def ex_fit_def)
  have eb: "em_loop ex_P ?B ex_obs ?s0 = ex_fixed 2"
    using em_loop_step [OF b, of ex_P ex_obs] em_loop_stop [OF c, of ex_P ex_obs] p by simp
  have "Estimate ex_P ex_learn ?A ex_obs ex_dists [Fin 1] True = (ex_dists, [Fin 1])"
    using ea by (simp add: Estimate_def Let_def ex_initial_state)
  moreover have "Estimate ex_P ex_learn ?B ex_obs ex_dists [Fin 1] True =
      (s_dists (ex_fixed 2), s_weights (ex_fixed 2))"
    using eb by (simp add: Estimate_def Let_def)
  ultimately have ne: "Estimate ex_P ex_learn ?A ex_obs ex_dists [Fin 1] True \<noteq>
      Estimate ex_P ex_learn ?B ex_obs ex_dists [Fin 1] True"
    by (simp add: ex_fixed_def ex_dists_def)
  have call: "snd (learn_call ((ex_fit 2 (Fin DBL_MAX))\<lparr>policy_is_DiagonalConstraint := True\<rparr>)
          ex_obs ex_dists [Fin 1] True) =
     \<lparr>arg_data = ex_obs, arg_n_gaus = 1, arg_dist_mode = eucl_dist,
      arg_seed_mode = keep_existing, arg_km_iter = 0, arg_em_iter = 2,
      arg_var_floor = lit_1e_10, arg_print_mode = False\<rparr>"
    by (simp add: learn_call_def ex_dists_def ex_fit_def)
  show ?thesis using ne call by (simp add: ex_fit_def)
qed

section \<open>The log-likelihood\<close>








section \<open>The E-step and the mixing weights on finite inputs\<close>

lemma map_by_index: "map f xs = map (\<lambda>j. f (xs ! j)) [0..<length xs]"
  by (rule nth_equalityI) simp_all







lemma length_E_step: "length (E_step P observations dists weights) = length dists"
  by (simp add: E_step_def normalize_rows_def condProb_cols_def)

lemma s_weights_em_pass:
  "s_weights (em_pass P fit observations s) =
     vec_div (map accu (E_step P observations (s_dists s) (s_weights s)))
       (Fin (real (n_cols observations)))"
  by (simp add: em_pass_def Let_def)







section \<open>A component of mixing weight zero\<close>

lemma update_dist_frozen: "update_dist fit observations c (Fin 0) d = d"
  by (simp add: update_dist_def dne0_def)

lemma length_s_dists_em_pass [simp]:
  "length (s_dists (em_pass P fit observations s)) = length (s_dists s)"
  by (simp add: em_pass_def Let_def)

lemma s_dists_em_pass_nth:
  assumes "k < length (s_dists s)"
  shows "s_dists (em_pass P fit observations s) ! k =
           update_dist fit observations (E_step P observations (s_dists s) (s_weights s) ! k)
             (accu (E_step P observations (s_dists s) (s_weights s) ! k)) (s_dists s ! k)"
  using assms by (simp add: em_pass_def Let_def length_E_step)

text \<open>A sum that is not NaN has no NaN among its terms.\<close>

lemma foldl_dadd_NaN: "foldl dadd NaN v = NaN"
  by (induction v) simp_all

lemma dadd_NaN_right: "dadd a NaN = NaN"
  by (cases a) simp_all

lemma foldl_dadd_not_NaN:
  "foldl dadd a v \<noteq> NaN \<Longrightarrow> e \<in> set v \<Longrightarrow> e \<noteq> NaN"
proof (induction v arbitrary: a)
  case Nil
  then show ?case by simp
next
  case (Cons x v)
  show ?case
  proof (cases "e = x")
    case True
    show ?thesis
    proof
      assume "e = NaN"
      then have "foldl dadd a (x # v) = NaN"
        using True by (simp add: dadd_NaN_right foldl_dadd_NaN)
      then show False using Cons.prems(1) by simp
    qed
  next
    case False
    then have "e \<in> set v" using Cons.prems(2) by simp
    moreover have "foldl dadd (dadd a x) v \<noteq> NaN" using Cons.prems(1) by simp
    ultimately show ?thesis by (rule Cons.IH [rotated])
  qed
qed

lemma accu_not_NaN: "accu v \<noteq> NaN \<Longrightarrow> e \<in> set v \<Longrightarrow> e \<noteq> NaN"
  unfolding accu_def by (rule foldl_dadd_not_NaN)

text \<open>A product with the weight zero that is not NaN is zero.\<close>

lemma dmul_zero_not_NaN: "dmul p (Fin 0) \<noteq> NaN \<Longrightarrow> dmul p (Fin 0) = Fin 0"
  by (cases p) simp_all

text \<open>A zero entry of a row stays zero where the row sum is not NaN.\<close>

lemma normalize_row_zero_entry:
  assumes "k < length r" and "r ! k = Fin 0" and "accu r \<noteq> NaN"
  shows "normalize_row r ! k = Fin 0"
proof (cases "dne0 (accu r)")
  case True
  have "ddiv (Fin 0) (accu r) = Fin 0"
    using True assms(3) by (cases "accu r") (simp_all add: dne0_def)
  then show ?thesis
    using True assms(1,2) by (simp add: normalize_row_def vec_div_def)
next
  case False
  then show ?thesis using assms(2) by (simp add: normalize_row_def)
qed

lemma length_condProb_cols [simp]:
  "length (condProb_cols P observations dists weights) = length dists"
  by (simp add: condProb_cols_def)

lemma condProb_cols_nth:
  assumes "i < length dists" and "j < n_cols observations"
  shows "condProb_cols P observations dists weights ! i ! j =
           dmul (P (dists ! i) (cols observations ! j)) (weights ! i)"
  using assms by (simp add: condProb_cols_def Probability_def n_cols_def)

lemma E_step_nth:
  assumes "i < length dists" and "j < n_cols observations"
  shows "E_step P observations dists weights ! i ! j =
           normalize_row (row (condProb_cols P observations dists weights) j) ! i"
  using assms by (simp add: E_step_def normalize_rows_def)

lemma length_E_step_nth:
  "i < length dists \<Longrightarrow> length (E_step P observations dists weights ! i) = n_cols observations"
  by (simp add: E_step_def normalize_rows_def)

text \<open>One pass keeps a component of mixing weight zero.\<close>

lemma zero_weight_pass:
  assumes k: "k < length (s_dists s)" and z: "s_weights s ! k = Fin 0"
    and rows: "\<forall>j<n_cols observations.
                 accu (row (condProb_cols P observations (s_dists s) (s_weights s)) j) \<noteq> NaN"
  shows "\<forall>j<n_cols observations.
           E_step P observations (s_dists s) (s_weights s) ! k ! j = Fin 0"
    and "accu (E_step P observations (s_dists s) (s_weights s) ! k) = Fin 0"
    and "s_dists (em_pass P fit observations s) ! k = s_dists s ! k"
    and "0 < n_cols observations \<Longrightarrow> s_weights (em_pass P fit observations s) ! k = Fin 0"
proof -
  let ?cs = "condProb_cols P observations (s_dists s) (s_weights s)"
  let ?E = "E_step P observations (s_dists s) (s_weights s)"
  let ?N = "n_cols observations"
  have entry: "row ?cs j ! k = Fin 0" if j: "j < ?N" for j
  proof -
    have e: "row ?cs j ! k = dmul (P (s_dists s ! k) (cols observations ! j)) (Fin 0)"
      using k j z by (simp add: row_def condProb_cols_nth)
    have "row ?cs j ! k \<in> set (row ?cs j)"
      using k by (simp add: row_def)
    then have "row ?cs j ! k \<noteq> NaN"
      using rows j accu_not_NaN by blast
    then show ?thesis
      unfolding e by (rule dmul_zero_not_NaN)
  qed
  show col: "\<forall>j<?N. ?E ! k ! j = Fin 0"
  proof (intro allI impI)
    fix j assume j: "j < ?N"
    have "normalize_row (row ?cs j) ! k = Fin 0"
      using k entry [OF j] rows j by (intro normalize_row_zero_entry) (simp_all add: row_def)
    then show "?E ! k ! j = Fin 0"
      using k j by (simp add: E_step_nth)
  qed
  have "?E ! k = map (\<lambda>j. Fin 0) [0..<?N]"
    using col k by (intro nth_equalityI) (simp_all add: length_E_step_nth)
  then show mass: "accu (?E ! k) = Fin 0"
    using accu_Fin_upt [of "\<lambda>j. 0" ?N] by simp
  show "s_dists (em_pass P fit observations s) ! k = s_dists s ! k"
    unfolding s_dists_em_pass_nth [OF k] mass by (rule update_dist_frozen)
  show "s_weights (em_pass P fit observations s) ! k = Fin 0" if "0 < ?N"
    using k mass that by (simp add: s_weights_em_pass vec_div_def length_E_step)
qed


lemma zero_weight_passes:
  assumes k: "k < length (s_dists s)" and z: "s_weights s ! k = Fin 0"
    and N: "0 < n_cols observations"
    and rows: "\<forall>n. (\<forall>m\<le>n. continues fit ((em_pass P fit observations ^^ m) s)) \<longrightarrow>
                 (\<forall>j<n_cols observations.
                    accu (row (condProb_cols P observations
                                 (s_dists ((em_pass P fit observations ^^ n) s))
                                 (s_weights ((em_pass P fit observations ^^ n) s))) j) \<noteq> NaN)"
  shows "(\<forall>m<n. continues fit ((em_pass P fit observations ^^ m) s)) \<Longrightarrow>
         length (s_dists ((em_pass P fit observations ^^ n) s)) = length (s_dists s) \<and>
         s_weights ((em_pass P fit observations ^^ n) s) ! k = Fin 0 \<and>
         s_dists ((em_pass P fit observations ^^ n) s) ! k = s_dists s ! k"
proof (induction n)
  case 0
  show ?case using z by simp
next
  case (Suc n)
  let ?t = "(em_pass P fit observations ^^ n) s"
  have run: "\<forall>m\<le>n. continues fit ((em_pass P fit observations ^^ m) s)"
    using Suc.prems by (simp add: less_Suc_eq_le)
  then have ih: "length (s_dists ?t) = length (s_dists s) \<and> s_weights ?t ! k = Fin 0 \<and>
                 s_dists ?t ! k = s_dists s ! k"
    by (intro Suc.IH) simp
  have k': "k < length (s_dists ?t)" using k ih by simp
  have z': "s_weights ?t ! k = Fin 0" using ih by blast
  have r': "\<forall>j<n_cols observations.
              accu (row (condProb_cols P observations (s_dists ?t) (s_weights ?t)) j) \<noteq> NaN"
    using rows run by blast
  have "s_dists (em_pass P fit observations ?t) ! k = s_dists ?t ! k"
    using k' z' r' by (rule zero_weight_pass(3))
  moreover have "s_weights (em_pass P fit observations ?t) ! k = Fin 0"
    using k' z' r' N by (rule zero_weight_pass(4))
  ultimately show ?case
    using ih by simp
qed

text \<open>
  Claim C10, as amended.  In the unweighted loop on a non-empty observation set, take a
  component whose mixing weight is zero at the start of a pass.  If no row of \<open>condProb\<close> sums
  to NaN in that pass, the responsibility column of the component is zero in the E-step, its
  Effective Mass is zero, its mean and covariance are not updated and its recomputed mixing
  weight is zero again.  If no row of \<open>condProb\<close> sums to NaN in any pass that the loop
  executes, the component has mixing weight zero and its first parameters at the start of
  every pass that is reached, and when the loop ends.
\<close>

theorem zero_weight_component_stays:
  assumes "k < length (s_dists s)" and "s_weights s ! k = Fin 0"
    and "0 < n_cols observations"
  shows "((\<forall>j<n_cols observations.
             accu (row (condProb_cols P observations (s_dists s) (s_weights s)) j) \<noteq> NaN) \<longrightarrow>
          (\<forall>j<n_cols observations.
             E_step P observations (s_dists s) (s_weights s) ! k ! j = Fin 0) \<and>
          accu (E_step P observations (s_dists s) (s_weights s) ! k) = Fin 0 \<and>
          s_dists (em_pass P fit observations s) ! k = s_dists s ! k \<and>
          s_weights (em_pass P fit observations s) ! k = Fin 0) \<and>
         ((\<forall>n. (\<forall>m\<le>n. continues fit ((em_pass P fit observations ^^ m) s)) \<longrightarrow>
               (\<forall>j<n_cols observations.
                  accu (row (condProb_cols P observations
                               (s_dists ((em_pass P fit observations ^^ n) s))
                               (s_weights ((em_pass P fit observations ^^ n) s))) j) \<noteq> NaN)) \<longrightarrow>
          (\<forall>n. (\<forall>m<n. continues fit ((em_pass P fit observations ^^ m) s)) \<longrightarrow>
               s_weights ((em_pass P fit observations ^^ n) s) ! k = Fin 0 \<and>
               s_dists ((em_pass P fit observations ^^ n) s) ! k = s_dists s ! k) \<and>
          s_weights (em_loop P fit observations s) ! k = Fin 0 \<and>
          s_dists (em_loop P fit observations s) ! k = s_dists s ! k)"
proof (intro conjI impI)
  assume r: "\<forall>j<n_cols observations.
             accu (row (condProb_cols P observations (s_dists s) (s_weights s)) j) \<noteq> NaN"
  note step = zero_weight_pass [OF assms(1,2) r]
  show "\<forall>j<n_cols observations.
             E_step P observations (s_dists s) (s_weights s) ! k ! j = Fin 0"
    by (rule step(1))
  show "accu (E_step P observations (s_dists s) (s_weights s) ! k) = Fin 0"
    by (rule step(2))
  show "s_dists (em_pass P fit observations s) ! k = s_dists s ! k"
    by (rule step(3))
  show "s_weights (em_pass P fit observations s) ! k = Fin 0"
    using assms(3) by (rule step(4))
next
  assume rows: "\<forall>n. (\<forall>m\<le>n. continues fit ((em_pass P fit observations ^^ m) s)) \<longrightarrow>
               (\<forall>j<n_cols observations.
                  accu (row (condProb_cols P observations
                               (s_dists ((em_pass P fit observations ^^ n) s))
                               (s_weights ((em_pass P fit observations ^^ n) s))) j) \<noteq> NaN)"
  note run = zero_weight_passes [OF assms rows]
  show all: "\<forall>n. (\<forall>m<n. continues fit ((em_pass P fit observations ^^ m) s)) \<longrightarrow>
               s_weights ((em_pass P fit observations ^^ n) s) ! k = Fin 0 \<and>
               s_dists ((em_pass P fit observations ^^ n) s) ! k = s_dists s ! k"
    using run by blast
  obtain n where n: "executes (em_pass P fit observations) fit s n"
    and e: "em_loop P fit observations s = (em_pass P fit observations ^^ n) s"
    using em_loop_executes [of fit s P observations] by blast
  have "\<forall>m<n. continues fit ((em_pass P fit observations ^^ m) s)"
    using n by (simp add: executes_def)
  then have "s_weights ((em_pass P fit observations ^^ n) s) ! k = Fin 0 \<and>
             s_dists ((em_pass P fit observations ^^ n) s) ! k = s_dists s ! k"
    using all by blast
  then show "s_weights (em_loop P fit observations s) ! k = Fin 0"
    and "s_dists (em_loop P fit observations s) ! k = s_dists s ! k"
    unfolding e by blast+
qed


lemma ex_bell_condProb:
  "condProb_cols ex_P_bell ex_obs ex_two_dists [Fin 1, Fin 0] =
     [[Fin 1, Fin (1 / 5)], [Fin 0, Fin 0]]"
  by (simp add: condProb_cols_def Probability_def ex_P_bell_def ex_obs_def ex_two_dists_def
      dsub_def)

lemma ex_bell_initial_state:
  "initial_state ex_P_bell ex_obs ex_two_dists [Fin 1, Fin 0] =
     \<lparr>s_dists = ex_two_dists, s_weights = [Fin 1, Fin 0], s_l = Fin (ln (1 / 5)),
      s_lOld = Fin (- DBL_MAX), s_iteration = 1\<rparr>"
  by (simp add: initial_state_def LogLikelihood_def likelihoods_col_def ex_P_bell_def
      ex_obs_def ex_two_dists_def accu_def dsub_def)

lemma ln_5_below_DBL_MAX: "ln 5 < DBL_MAX"
proof -
  have "ln 5 < (5 :: real)" by (rule ln_less_self) simp
  moreover have "5 \<le> DBL_MAX" by (simp add: DBL_MAX_def)
  ultimately show ?thesis by (rule less_le_trans)
qed

theorem zero_weight_component_stays_witness:
  "ex_P_bell (ex_two_dists ! 0) [Fin 2] = Fin (1 / 5) \<and>
   ex_P_bell (ex_two_dists ! 1) [Fin 2] = Fin 1 \<and>
   continues (ex_fit 2 (Fin 0)) (initial_state ex_P_bell ex_obs ex_two_dists [Fin 1, Fin 0]) \<and>
   E_step ex_P_bell ex_obs ex_two_dists [Fin 1, Fin 0] ! 1 ! 0 = Fin 0 \<and>
   E_step ex_P_bell ex_obs ex_two_dists [Fin 1, Fin 0] ! 1 ! 1 = Fin 0 \<and>
   accu (E_step ex_P_bell ex_obs ex_two_dists [Fin 1, Fin 0] ! 1) = Fin 0 \<and>
   s_dists (em_pass ex_P_bell (ex_fit 2 (Fin 0)) ex_obs
      (initial_state ex_P_bell ex_obs ex_two_dists [Fin 1, Fin 0])) ! 1 = ex_two_dists ! 1 \<and>
   s_weights (em_pass ex_P_bell (ex_fit 2 (Fin 0)) ex_obs
      (initial_state ex_P_bell ex_obs ex_two_dists [Fin 1, Fin 0])) ! 1 = Fin 0 \<and>
   s_weights (em_loop ex_P_bell (ex_fit 2 (Fin 0)) ex_obs
      (initial_state ex_P_bell ex_obs ex_two_dists [Fin 1, Fin 0])) ! 1 = Fin 0 \<and>
   s_dists (em_loop ex_P_bell (ex_fit 2 (Fin 0)) ex_obs
      (initial_state ex_P_bell ex_obs ex_two_dists [Fin 1, Fin 0])) ! 1 = ex_two_dists ! 1"
proof -
  let ?fit = "ex_fit 2 (Fin 0)"
  let ?s = "initial_state ex_P_bell ex_obs ex_two_dists [Fin 1, Fin 0]"
  let ?pass = "em_pass ex_P_bell ?fit ex_obs"
  have a: "1 < length (s_dists ?s)"
    by (simp add: ex_two_dists_def)
  have b: "s_weights ?s ! 1 = Fin 0"
    by simp
  have c: "0 < n_cols ex_obs"
    by (simp add: n_cols_def ex_obs_def)
  have N: "n_cols ex_obs = 2"
    by (simp add: n_cols_def ex_obs_def)
  have r: "\<forall>j<n_cols ex_obs.
             accu (row (condProb_cols ex_P_bell ex_obs (s_dists ?s) (s_weights ?s)) j) \<noteq> NaN"
    unfolding N by (simp add: ex_bell_condProb row_def accu_def less_Suc_eq numeral_2_eq_2)
  have stop: "\<not> continues ?fit (?pass ?s)"
    by (simp add: continues_def ex_fit_def)
  have rows: "\<forall>n. (\<forall>m\<le>n. continues ?fit ((?pass ^^ m) ?s)) \<longrightarrow>
               (\<forall>j<n_cols ex_obs.
                  accu (row (condProb_cols ex_P_bell ex_obs (s_dists ((?pass ^^ n) ?s))
                               (s_weights ((?pass ^^ n) ?s))) j) \<noteq> NaN)"
  proof (intro allI impI)
    fix n j
    assume run: "\<forall>m\<le>n. continues ?fit ((?pass ^^ m) ?s)" and j: "j < n_cols ex_obs"
    have "n = 0"
    proof (rule ccontr)
      assume "n \<noteq> 0"
      then have "continues ?fit ((?pass ^^ 1) ?s)" using run by (intro run [rule_format]) simp
      then show False using stop by simp
    qed
    then show "accu (row (condProb_cols ex_P_bell ex_obs (s_dists ((?pass ^^ n) ?s))
                               (s_weights ((?pass ^^ n) ?s))) j) \<noteq> NaN"
      using r j by simp
  qed
  note t = zero_weight_component_stays [OF a b c, where P = ex_P_bell and fit = ?fit]
  have go: "continues ?fit ?s"
    unfolding ex_bell_initial_state using ln_5_below_DBL_MAX
    by (simp add: continues_def ex_fit_def dsub_def ln_div)
  have p: "ex_P_bell (ex_two_dists ! 0) [Fin 2] = Fin (1 / 5) \<and>
           ex_P_bell (ex_two_dists ! 1) [Fin 2] = Fin 1"
    by (simp add: ex_P_bell_def ex_two_dists_def dsub_def)
  have 1: "(\<forall>j<n_cols ex_obs. E_step ex_P_bell ex_obs (s_dists ?s) (s_weights ?s) ! 1 ! j = Fin 0) \<and>
           accu (E_step ex_P_bell ex_obs (s_dists ?s) (s_weights ?s) ! 1) = Fin 0 \<and>
           s_dists (?pass ?s) ! 1 = s_dists ?s ! 1 \<and> s_weights (?pass ?s) ! 1 = Fin 0"
    using t r by blast
  have 2: "s_weights (em_loop ex_P_bell ?fit ex_obs ?s) ! 1 = Fin 0 \<and>
           s_dists (em_loop ex_P_bell ?fit ex_obs ?s) ! 1 = s_dists ?s ! 1"
    using t rows by blast
  have 3: "E_step ex_P_bell ex_obs (s_dists ?s) (s_weights ?s) ! 1 ! 0 = Fin 0 \<and>
           E_step ex_P_bell ex_obs (s_dists ?s) (s_weights ?s) ! 1 ! 1 = Fin 0"
    using 1 N by simp
  show ?thesis
    using p go 1 2 3 by simp
qed

text \<open>
  Without observations the new mixing weights are \<open>0 / 0\<close>: a component of mixing weight zero
  gets the mixing weight NaN in the first pass, and \<open>Estimate\<close> returns it.  With two
  observations, a component of mixing weight zero whose density is infinite makes every row of
  \<open>condProb\<close> sum to NaN, since \<open>inf * 0\<close> is NaN: its responsibility column, its mixing
  weight and its mean are NaN after the pass.
\<close>

theorem zero_weight_component_stays_counterexample:
  "s_weights (initial_state ex_P ex_no_obs ex_dists [Fin 0]) ! 0 = Fin 0 \<and>
   s_weights (em_pass ex_P (ex_fit 3 (Fin 0)) ex_no_obs
      (initial_state ex_P ex_no_obs ex_dists [Fin 0])) ! 0 = NaN \<and>
   Estimate ex_P ex_learn (ex_fit 3 (Fin 0)) ex_no_obs ex_dists [Fin 0] True = (ex_dists, [NaN]) \<and>
   ex_P_bell (ex_two_dists_point ! 1) [Fin 0] = PInf \<and>
   accu (row (condProb_cols ex_P_bell ex_obs ex_two_dists_point [Fin 1, Fin 0]) 0) = NaN \<and>
   E_step ex_P_bell ex_obs ex_two_dists_point [Fin 1, Fin 0] ! 1 = [NaN, NaN] \<and>
   s_weights (em_pass ex_P_bell (ex_fit 3 (Fin 0)) ex_obs
      (initial_state ex_P_bell ex_obs ex_two_dists_point [Fin 1, Fin 0])) ! 1 = NaN \<and>
   Mean (s_dists (em_pass ex_P_bell (ex_fit 3 (Fin 0)) ex_obs
      (initial_state ex_P_bell ex_obs ex_two_dists_point [Fin 1, Fin 0])) ! 1) = [NaN]"
proof -
  let ?fit = "ex_fit 3 (Fin 0)"
  let ?s0 = "initial_state ex_P ex_no_obs ex_dists [Fin 0]"
  let ?s1 = "\<lparr>s_dists = ex_dists, s_weights = [NaN], s_l = Fin 0, s_lOld = Fin 0,
              s_iteration = 2\<rparr>"
  have i: "?s0 = \<lparr>s_dists = ex_dists, s_weights = [Fin 0], s_l = Fin 0,
                  s_lOld = Fin (- DBL_MAX), s_iteration = 1\<rparr>"
    by (simp add: initial_state_def LogLikelihood_def ex_no_obs_def)
  have p: "em_pass ex_P ?fit ex_no_obs ?s0 = ?s1"
    unfolding i
    by (simp add: em_pass_def E_step_def condProb_cols_def Probability_def normalize_rows_def
        accu_def dne0_def vec_div_def update_dist_def LogLikelihood_def n_cols_def
        ex_no_obs_def ex_dists_def Let_def)
  have c0: "continues ?fit ?s0"
    unfolding i using DBL_MAX_pos by (simp add: continues_def ex_fit_def dsub_def)
  have c1: "\<not> continues ?fit ?s1"
    by (simp add: continues_def ex_fit_def dsub_def)
  have "em_loop ex_P ?fit ex_no_obs ?s0 = ?s1"
    using em_loop_step [OF c0, of ex_P ex_no_obs] em_loop_stop [OF c1, of ex_P ex_no_obs] p
    by simp
  then have e: "Estimate ex_P ex_learn ?fit ex_no_obs ex_dists [Fin 0] True = (ex_dists, [NaN])"
    by (simp add: Estimate_def Let_def ex_fit_def)
  have d: "ex_P_bell (ex_two_dists_point ! 1) [Fin 0] = PInf"
    by (simp add: ex_P_bell_def ex_two_dists_point_def dsub_def inf_of_def)
  have cp: "condProb_cols ex_P_bell ex_obs ex_two_dists_point [Fin 1, Fin 0] =
              [[Fin 1, Fin (1 / 5)], [NaN, NaN]]"
    by (simp add: condProb_cols_def Probability_def ex_P_bell_def ex_obs_def
        ex_two_dists_point_def dsub_def inf_of_def)
  have r: "accu (row (condProb_cols ex_P_bell ex_obs ex_two_dists_point [Fin 1, Fin 0]) 0) = NaN"
    unfolding cp by (simp add: row_def accu_def)
  have E: "E_step ex_P_bell ex_obs ex_two_dists_point [Fin 1, Fin 0] =
             [[NaN, NaN], [NaN, NaN]]"
    unfolding E_step_def cp
    by (simp add: normalize_rows_def normalize_row_def row_def accu_def dne0_def vec_div_def
        n_cols_def ex_obs_def Let_def)
  have w: "s_weights (em_pass ex_P_bell ?fit ex_obs
             (initial_state ex_P_bell ex_obs ex_two_dists_point [Fin 1, Fin 0])) ! 1 = NaN"
    by (simp add: s_weights_em_pass E accu_def vec_div_def)
  have k: "1 < length (s_dists (initial_state ex_P_bell ex_obs ex_two_dists_point [Fin 1, Fin 0]))"
    by (simp add: ex_two_dists_point_def)
  have m: "Mean (s_dists (em_pass ex_P_bell ?fit ex_obs
             (initial_state ex_P_bell ex_obs ex_two_dists_point [Fin 1, Fin 0])) ! 1) = [NaN]"
    unfolding s_dists_em_pass_nth [OF k] initial_state_sel E
    by (simp add: accu_def update_dist_def dne0_def vec_div_def mat_vec_def n_cols_def
        ex_obs_def Let_def)
  show ?thesis
    using p e d r E w m by simp
qed

section \<open>A component without effective mass in the weighted overload\<close>

lemma ex_two_initial_state:
  "initial_state ex_P ex_obs ex_two_dists [Fin 1, Fin 0] =
     \<lparr>s_dists = ex_two_dists, s_weights = [Fin 1, Fin 0], s_l = Fin 0,
      s_lOld = Fin (- DBL_MAX), s_iteration = 1\<rparr>"
  by (simp add: initial_state_def LogLikelihood_def likelihoods_col_def ex_obs_def ex_P_def
      ex_two_dists_def accu_def)

lemma ex_two_E_step:
  "E_step ex_P ex_obs ex_two_dists [Fin 1, Fin 0] = [[Fin 1, Fin 1], [Fin 0, Fin 0]]"
  by (simp add: E_step_def condProb_cols_def Probability_def normalize_rows_def
      normalize_row_def row_def accu_def dne0_def vec_div_def n_cols_def ex_P_def ex_obs_def
      ex_two_dists_def Let_def)

lemma ex_two_pass_weighted:
  "em_pass_weighted ex_P (ex_fit m tol) ex_obs [Fin 1, Fin 1]
     (initial_state ex_P ex_obs ex_two_dists [Fin 1, Fin 0]) =
   \<lparr>s_dists = [\<lparr>Mean = [Fin 1], Covariance = \<lparr>n_rows = 1, cols = [[Fin 1]]\<rparr>\<rparr>,
               \<lparr>Mean = [NaN], Covariance = \<lparr>n_rows = 1, cols = [[NaN]]\<rparr>\<rparr>],
    s_weights = [Fin 1, Fin 0], s_l = Fin 0, s_lOld = Fin 0, s_iteration = 2\<rparr>"
  unfolding ex_two_initial_state
  by (simp add: ex_eval em_pass_weighted_def schur_def update_dist_weighted_def
      ex_two_dists_def)

lemma ex_two_pass:
  "em_pass ex_P (ex_fit m tol) ex_obs (initial_state ex_P ex_obs ex_two_dists [Fin 1, Fin 0]) =
   \<lparr>s_dists = [\<lparr>Mean = [Fin 1], Covariance = \<lparr>n_rows = 1, cols = [[Fin 1]]\<rparr>\<rparr>,
               \<lparr>Mean = [Fin 2], Covariance = \<lparr>n_rows = 1, cols = [[Fin 1]]\<rparr>\<rparr>],
    s_weights = [Fin 1, Fin 0], s_l = Fin 0, s_lOld = Fin 0, s_iteration = 2\<rparr>"
  unfolding ex_two_initial_state
  by (simp add: ex_eval ex_two_dists_def)


text \<open>The unweighted pass keeps every component whose Effective Mass is zero.\<close>

lemma em_pass_keeps_massless_component:
  assumes "k < length (s_dists s)"
    and "accu (E_step P observations (s_dists s) (s_weights s) ! k) = Fin 0"
  shows "s_dists (em_pass P fit observations s) ! k = s_dists s ! k"
  unfolding s_dists_em_pass_nth [OF assms(1)] assms(2) by (rule update_dist_frozen)

text \<open>
  Claim C1.  The unweighted overload keeps the mean and the covariance of a component whose
  Effective Mass is zero.  The weighted overload has no such test: on two points with unit
  point weights and two components of mixing weights 1 and 0, the second component has
  Effective Mass zero in both overloads; the unweighted pass keeps it, the weighted pass
  divides by the zero mass and stores NaN in its mean and covariance.
\<close>

theorem weighted_pass_divides_by_zero_mass:
  "accu (schur (E_step ex_P ex_obs ex_two_dists [Fin 1, Fin 0] ! 1) [Fin 1, Fin 1]) = Fin 0 \<and>
   s_dists (em_pass_weighted ex_P (ex_fit 3 (Fin 0)) ex_obs [Fin 1, Fin 1]
      (initial_state ex_P ex_obs ex_two_dists [Fin 1, Fin 0])) ! 1 =
     \<lparr>Mean = [NaN], Covariance = \<lparr>n_rows = 1, cols = [[NaN]]\<rparr>\<rparr> \<and>
   accu (E_step ex_P ex_obs ex_two_dists [Fin 1, Fin 0] ! 1) = Fin 0 \<and>
   s_dists (em_pass ex_P (ex_fit 3 (Fin 0)) ex_obs
      (initial_state ex_P ex_obs ex_two_dists [Fin 1, Fin 0])) ! 1 = ex_two_dists ! 1"
  unfolding ex_two_pass_weighted ex_two_pass ex_two_E_step
  by (simp add: schur_def accu_def ex_two_dists_def)

section \<open>Unit point weights\<close>

lemma dmul_one [simp]: "dmul x (Fin 1) = x"
  by (cases x) (simp_all add: inf_of_def)

lemma schur_ones: "length c = n \<Longrightarrow> schur c (replicate n (Fin 1)) = c"
  by (induction c arbitrary: n) (auto simp: schur_def)

lemma foldl_dadd_ones: "foldl dadd (Fin a) (replicate n (Fin 1)) = Fin (a + real n)"
  by (induction n arbitrary: a) (simp_all add: add.assoc)

lemma accu_ones: "accu (replicate n (Fin 1)) = Fin (real n)"
  by (simp add: accu_def foldl_dadd_ones)

lemma length_E_step_col:
  "i < length dists \<Longrightarrow>
     length (E_step P observations dists weights ! i) = n_cols observations"
  by (simp add: E_step_def normalize_rows_def condProb_cols_def)

lemma update_dist_weighted_eq:
  "dne0 m \<Longrightarrow> update_dist_weighted fit observations c m d = update_dist fit observations c m d"
  by (simp add: update_dist_weighted_def update_dist_def Let_def)

lemma em_pass_weighted_ones:
  assumes "no_zero_mass P observations s"
  shows "em_pass_weighted P fit observations (replicate (n_cols observations) (Fin 1)) s =
           em_pass P fit observations s"
proof -
  let ?E = "E_step P observations (s_dists s) (s_weights s)"
  let ?ones = "replicate (n_cols observations) (Fin 1)"
  let ?K = "length (s_dists s)"
  have sch: "schur (?E ! i) ?ones = ?E ! i" if "i < ?K" for i
    using that by (intro schur_ones length_E_step_col)
  have "map (\<lambda>i. accu (schur (?E ! i) ?ones)) [0..<?K] = map (\<lambda>i. accu (?E ! i)) [0..<?K]"
    by (intro map_cong refl) (simp add: sch)
  also have "\<dots> = map accu ?E"
    using map_by_index [of accu ?E] by (simp add: length_E_step)
  finally have sums: "map (\<lambda>i. accu (schur (?E ! i) ?ones)) [0..<?K] = map accu ?E" .
  have upd: "update_dist_weighted fit observations (schur (?E ! i) ?ones) (map accu ?E ! i)
               (s_dists s ! i) =
             update_dist fit observations (?E ! i) (map accu ?E ! i) (s_dists s ! i)"
    if "i < ?K" for i
  proof -
    have "dne0 (map accu ?E ! i)"
      using assms that by (simp add: no_zero_mass_def length_E_step)
    then show ?thesis using that by (simp add: sch update_dist_weighted_eq)
  qed
  have dists: "map (\<lambda>i. update_dist_weighted fit observations (schur (?E ! i) ?ones)
                         (map accu ?E ! i) (s_dists s ! i)) [0..<?K] =
               map (\<lambda>i. update_dist fit observations (?E ! i) (map accu ?E ! i)
                         (s_dists s ! i)) [0..<?K]"
    by (intro map_cong refl) (simp add: upd)
  show ?thesis
    unfolding em_pass_weighted_def em_pass_def Let_def sums dists accu_ones ..
qed

lemma em_loop_weighted_ones:
  assumes "\<forall>n. (\<forall>k\<le>n. continues fit ((em_pass P fit observations ^^ k) s)) \<longrightarrow>
             no_zero_mass P observations ((em_pass P fit observations ^^ n) s)"
  shows "em_loop_weighted P fit observations (replicate (n_cols observations) (Fin 1)) s =
           em_loop P fit observations s"
  using assms
proof (induction P fit observations s rule: em_loop.induct)
  case (1 P fit observations s)
  let ?ones = "replicate (n_cols observations) (Fin 1)"
  show ?case
  proof (cases "continues fit s")
    case False
    then show ?thesis by (simp add: em_loop_stop em_loop_weighted_stop)
  next
    case True
    have "no_zero_mass P observations s"
      using "1.prems" [rule_format, of 0] True by simp
    then have p: "em_pass_weighted P fit observations ?ones s = em_pass P fit observations s"
      by (rule em_pass_weighted_ones)
    have next_run: "\<forall>n. (\<forall>k\<le>n. continues fit
                 ((em_pass P fit observations ^^ k) (em_pass P fit observations s))) \<longrightarrow>
             no_zero_mass P observations
               ((em_pass P fit observations ^^ n) (em_pass P fit observations s))"
    proof (intro allI impI)
      fix n
      assume a: "\<forall>k\<le>n. continues fit
                 ((em_pass P fit observations ^^ k) (em_pass P fit observations s))"
      have "\<forall>k\<le>Suc n. continues fit ((em_pass P fit observations ^^ k) s)"
      proof (intro allI impI)
        fix k assume "k \<le> Suc n"
        then show "continues fit ((em_pass P fit observations ^^ k) s)"
          using a True by (cases k) (simp_all add: funpow_swap1)
      qed
      then have "no_zero_mass P observations ((em_pass P fit observations ^^ Suc n) s)"
        using "1.prems" by blast
      then show "no_zero_mass P observations
               ((em_pass P fit observations ^^ n) (em_pass P fit observations s))"
        by (simp add: funpow_swap1)
    qed
    have "em_loop_weighted P fit observations ?ones s =
            em_loop_weighted P fit observations ?ones (em_pass P fit observations s)"
      using em_loop_weighted_step [OF True, of P observations ?ones] p by simp
    also have "\<dots> = em_loop P fit observations (em_pass P fit observations s)"
      using True next_run by (rule "1.IH")
    also have "\<dots> = em_loop P fit observations s"
      using True by (rule em_loop_step [symmetric])
    finally show ?thesis .
  qed
qed

lemma Estimate_generic:
  assumes "WIN32 fit \<or> \<not> policy_is_DiagonalConstraint fit"
  shows "Estimate P learn fit observations dists weights useInitialModel =
     (s_dists (em_loop P fit observations
        (initial_state P observations
           (fst (seed_model fit observations dists weights useInitialModel))
           (snd (seed_model fit observations dists weights useInitialModel)))),
      s_weights (em_loop P fit observations
        (initial_state P observations
           (fst (seed_model fit observations dists weights useInitialModel))
           (snd (seed_model fit observations dists weights useInitialModel)))))"
  using assms by (auto simp: Estimate_def seed_model_def Let_def split: prod.splits)

text \<open>
  Where the unweighted overload runs the generic loop and no component has Effective Mass zero
  in a pass that the loop executes, the weighted overload with every point weight 1 returns
  the components and mixing weights of the unweighted overload.
\<close>

lemma unit_weights_agree:
  assumes "WIN32 fit \<or> \<not> policy_is_DiagonalConstraint fit"
    and "\<forall>n. (\<forall>k\<le>n. continues fit ((em_pass P fit observations ^^ k)
                  (start_state P fit observations dists weights useInitialModel))) \<longrightarrow>
             no_zero_mass P observations ((em_pass P fit observations ^^ n)
                  (start_state P fit observations dists weights useInitialModel))"
  shows "Estimate_weighted P fit observations (replicate (n_cols observations) (Fin 1))
           dists weights useInitialModel =
         Inr (Estimate P learn fit observations dists weights useInitialModel)"
proof -
  let ?s0 = "start_state P fit observations dists weights useInitialModel"
  let ?ones = "replicate (n_cols observations) (Fin 1)"
  have l: "em_loop_weighted P fit observations ?ones ?s0 = em_loop P fit observations ?s0"
    using assms(2) by (rule em_loop_weighted_ones)
  have u: "Estimate P learn fit observations dists weights useInitialModel =
             (s_dists (em_loop P fit observations ?s0), s_weights (em_loop P fit observations ?s0))"
    unfolding Estimate_generic [OF assms(1)] start_state_def ..
  show ?thesis
    unfolding Estimate_weighted_start l u by simp
qed

text \<open>
  Claim C6.  On two points with unit point weights and two components of mixing weights 1 and
  0, under the identity constraint, both overloads run one pass of the generic loop.  The
  second component has Effective Mass zero: the unweighted overload keeps its mean 2 and its
  covariance, the weighted overload divides by the zero mass and returns NaN for both, so the
  two results differ.
\<close>

theorem unit_weights_differ_at_zero_mass:
  "Estimate_weighted ex_P (ex_fit 2 (Fin 0)) ex_obs [Fin 1, Fin 1] ex_two_dists
       [Fin 1, Fin 0] True =
     Inr ([\<lparr>Mean = [Fin 1], Covariance = \<lparr>n_rows = 1, cols = [[Fin 1]]\<rparr>\<rparr>,
           \<lparr>Mean = [NaN], Covariance = \<lparr>n_rows = 1, cols = [[NaN]]\<rparr>\<rparr>], [Fin 1, Fin 0]) \<and>
   Estimate ex_P ex_learn (ex_fit 2 (Fin 0)) ex_obs ex_two_dists [Fin 1, Fin 0] True =
     ([\<lparr>Mean = [Fin 1], Covariance = \<lparr>n_rows = 1, cols = [[Fin 1]]\<rparr>\<rparr>,
       \<lparr>Mean = [Fin 2], Covariance = \<lparr>n_rows = 1, cols = [[Fin 1]]\<rparr>\<rparr>], [Fin 1, Fin 0])"
proof -
  let ?fit = "ex_fit 2 (Fin 0)"
  let ?s0 = "initial_state ex_P ex_obs ex_two_dists [Fin 1, Fin 0]"
  have c0: "continues ?fit ?s0"
    unfolding ex_two_initial_state using DBL_MAX_pos
    by (simp add: continues_def ex_fit_def dsub_def)
  have cw: "\<not> continues ?fit (em_pass_weighted ex_P ?fit ex_obs [Fin 1, Fin 1] ?s0)"
    by (simp add: continues_def ex_fit_def)
  have cu: "\<not> continues ?fit (em_pass ex_P ?fit ex_obs ?s0)"
    by (simp add: continues_def ex_fit_def)
  have lw: "em_loop_weighted ex_P ?fit ex_obs [Fin 1, Fin 1] ?s0 =
              em_pass_weighted ex_P ?fit ex_obs [Fin 1, Fin 1] ?s0"
    using em_loop_weighted_step [OF c0, of ex_P ex_obs "[Fin 1, Fin 1]"]
      em_loop_weighted_stop [OF cw, of ex_P ex_obs "[Fin 1, Fin 1]"] by simp
  have lu: "em_loop ex_P ?fit ex_obs ?s0 = em_pass ex_P ?fit ex_obs ?s0"
    using em_loop_step [OF c0, of ex_P ex_obs] em_loop_stop [OF cu, of ex_P ex_obs] by simp
  have g: "WIN32 ?fit \<or> \<not> policy_is_DiagonalConstraint ?fit"
    by (simp add: ex_fit_def)
  have n: "length [Fin 1, Fin 1 :: dbl] = n_cols ex_obs"
    by (simp add: n_cols_def ex_obs_def)
  have w: "Estimate_weighted ex_P ?fit ex_obs [Fin 1, Fin 1] ex_two_dists [Fin 1, Fin 0] True =
        Inr ([\<lparr>Mean = [Fin 1], Covariance = \<lparr>n_rows = 1, cols = [[Fin 1]]\<rparr>\<rparr>,
              \<lparr>Mean = [NaN], Covariance = \<lparr>n_rows = 1, cols = [[NaN]]\<rparr>\<rparr>], [Fin 1, Fin 0])"
    unfolding Estimate_weighted_loop using n by (simp add: lw ex_two_pass_weighted)
  have u: "Estimate ex_P ex_learn ?fit ex_obs ex_two_dists [Fin 1, Fin 0] True =
        ([\<lparr>Mean = [Fin 1], Covariance = \<lparr>n_rows = 1, cols = [[Fin 1]]\<rparr>\<rparr>,
          \<lparr>Mean = [Fin 2], Covariance = \<lparr>n_rows = 1, cols = [[Fin 1]]\<rparr>\<rparr>], [Fin 1, Fin 0])"
    by (simp add: Estimate_generic [OF g] lu ex_two_pass)
  show ?thesis using w u by simp
qed

section \<open>The covariance after InitialClustering\<close>

text \<open>
  Claim C5.  \<open>InitialClustering\<close> adds the centred outer products of the second loop to the
  uncentred sum of the first loop.  For the points 0 and 2 in one cluster it stores the
  covariance 3, the sum of the uncentred average 2 and the centred average 1, where the
  centred average of the claim is 1.
\<close>

theorem InitialClustering_keeps_uncentred_sum:
  "InitialClustering ex_fit_cluster ex_obs ex_dists [Fin 0] =
     ([\<lparr>Mean = [Fin 1], Covariance = \<lparr>n_rows = 1, cols = [[Fin 3]]\<rparr>\<rparr>], [Fin 1]) \<and>
   centred_covariance ex_obs (clusterer ex_fit_cluster ex_obs 1) 0 [Fin 1] (Fin 2) =
     \<lparr>n_rows = 1, cols = [[Fin 1]]\<rparr>"
  by (simp add: InitialClustering_def centred_covariance_def ex_fit_cluster_def ex_obs_def
      ex_fit_def ex_dists_def accumulate_point_def accumulate_centred_def zeros_vec_def
      zeros_mat_def n_cols_def vec_add_def vec_sub_def mat_add_def outer_def count_or_one_def
      vec_div_def mat_div_def accu_def dsub_def Let_def)

end
